theory Spec2Isabelle
  imports Main "HOL-Library.AList"
begin


section \<open>Python values and string primitives\<close>

text \<open>
  Strings are lists of characters, each character standing for one code point below 256.
  The string methods of Python that the program calls are written out on that alphabet.
\<close>

datatype pyval = PyNone | NaN | Str string

datatype error = KeyError string | ValueError string | AttributeError | StoreError string

fun py_str :: "pyval \<Rightarrow> string" where
  "py_str PyNone = ''None''"
| "py_str NaN = ''nan''"
| "py_str (Str s) = s"

definition is_space :: "char \<Rightarrow> bool" where
  "is_space c =
     (let n = (of_char c :: nat)
      in (9 \<le> n \<and> n \<le> 13) \<or> (28 \<le> n \<and> n \<le> 32) \<or> n = 133 \<or> n = 160)"

definition py_lstrip :: "string \<Rightarrow> string" where
  "py_lstrip s = dropWhile is_space s"

definition py_rstrip :: "string \<Rightarrow> string" where
  "py_rstrip s = rev (dropWhile is_space (rev s))"

definition py_strip :: "string \<Rightarrow> string" where
  "py_strip s = py_rstrip (py_lstrip s)"

definition lower_char :: "char \<Rightarrow> char" where
  "lower_char c =
     (let n = (of_char c :: nat)
      in if (65 \<le> n \<and> n \<le> 90) \<or> (192 \<le> n \<and> n \<le> 222 \<and> n \<noteq> 215)
         then char_of (n + 32) else c)"

definition py_lower :: "string \<Rightarrow> string" where
  "py_lower s = map lower_char s"

definition digit_char :: "char \<Rightarrow> bool" where
  "digit_char c =
     (let n = (of_char c :: nat)
      in (48 \<le> n \<and> n \<le> 57) \<or> n = 178 \<or> n = 179 \<or> n = 185)"

definition py_isdigit :: "string \<Rightarrow> bool" where
  "py_isdigit s = (s \<noteq> [] \<and> list_all digit_char s)"

definition py_zfill :: "nat \<Rightarrow> string \<Rightarrow> string" where
  "py_zfill w s =
     (if w \<le> length s then s
      else (case s of
              [] \<Rightarrow> replicate w (CHR ''0'')
            | c # r \<Rightarrow>
                if c = CHR ''+'' \<or> c = CHR ''-''
                then c # replicate (w - length s) (CHR ''0'') @ r
                else replicate (w - length s) (CHR ''0'') @ s))"

section \<open>Cleaning and normalising scan tokens\<close>

definition clean_value :: "pyval \<Rightarrow> string" where
  "clean_value v =
     (if v = PyNone \<or> v = NaN then ''''
      else (let text = py_strip (py_str v)
            in if py_lower text = ''nan'' then '''' else text))"

definition scan_normalize_card :: "pyval \<Rightarrow> string" where
  "scan_normalize_card v =
     (let text = clean_value v
      in if text \<noteq> '''' \<and> py_isdigit text then py_zfill 8 text else text)"

section \<open>Dictionaries and tables\<close>

text \<open>
  A Python dictionary with string keys is a partial map. A record payload maps logical field
  names to strings; the column map sends a logical field name to a spreadsheet header.
\<close>

type_synonym pydict = "string \<rightharpoonup> string"

definition dict_get :: "pydict \<Rightarrow> string \<Rightarrow> string \<Rightarrow> string" where
  "dict_get d k dflt = (case d k of None \<Rightarrow> dflt | Some v \<Rightarrow> v)"

definition truthy :: "pydict \<Rightarrow> string \<Rightarrow> bool" where
  "truthy d k = (case d k of None \<Rightarrow> False | Some v \<Rightarrow> v \<noteq> [])"

text \<open>
  A data frame read with \<open>dtype=str\<close>: a list of column headers and a list of rows, each
  cell a string or the missing value \<open>NaN\<close>. Rows are aligned with the headers.
\<close>

record dataframe =
  columns :: "string list"
  rows :: "pyval list list"

definition wf_df :: "dataframe \<Rightarrow> bool" where
  "wf_df df = (distinct (columns df) \<and> list_all (\<lambda>r. length r = length (columns df)) (rows df))"

fun index_of :: "'a \<Rightarrow> 'a list \<Rightarrow> nat option" where
  "index_of x [] = None"
| "index_of x (y # ys) = (if x = y then Some 0 else map_option Suc (index_of x ys))"

definition cell :: "pyval list \<Rightarrow> nat \<Rightarrow> pyval" where
  "cell r j = (if j < length r then r ! j else NaN)"

text \<open>\<open>df[col].astype(str) == value\<close>: one truth value per row.\<close>

definition astype_str_eq :: "dataframe \<Rightarrow> nat \<Rightarrow> string \<Rightarrow> bool list" where
  "astype_str_eq df j v = map (\<lambda>r. py_str (cell r j) = v) (rows df)"

text \<open>\<open>df.loc[mask, col].values\<close>: the cells of one column in the rows the mask selects.\<close>

definition loc_values :: "bool list \<Rightarrow> nat \<Rightarrow> dataframe \<Rightarrow> pyval list" where
  "loc_values sel j df = map (\<lambda>(m, r). cell r j) (filter fst (zip sel (rows df)))"

text \<open>
  \<open>df.loc[mask, col] = v\<close>: the cell of column \<open>col\<close> becomes \<open>v\<close> in every row the mask
  selects. A header the frame does not have is added as a new last column, missing in the
  rows the mask does not select.
\<close>

definition loc_assign :: "bool list \<Rightarrow> string \<Rightarrow> pyval \<Rightarrow> dataframe \<Rightarrow> dataframe" where
  "loc_assign sel col v df =
     (case index_of col (columns df) of
        Some j \<Rightarrow> df\<lparr>rows := map (\<lambda>(m, r). if m then r[j := v] else r) (zip sel (rows df))\<rparr>
      | None \<Rightarrow> df\<lparr>columns := columns df @ [col],
                   rows := map (\<lambda>(m, r). r @ [if m then v else NaN]) (zip sel (rows df))\<rparr>)"

text \<open>
  \<open>pd.concat([df, pd.DataFrame([row])], ignore_index=True)\<close> for a row given as a dictionary
  in insertion order: keys that are no header of \<open>df\<close> become new last columns, missing in the
  old rows; a header the dictionary lacks is missing in the new row.
\<close>

definition concat_row :: "dataframe \<Rightarrow> (string \<times> pyval) list \<Rightarrow> dataframe" where
  "concat_row df row =
     (let new_cols = filter (\<lambda>c. c \<notin> set (columns df)) (map fst row);
          cols = columns df @ new_cols
      in \<lparr>columns = cols,
          rows = map (\<lambda>r. r @ replicate (length new_cols) NaN) (rows df)
                 @ [map (\<lambda>c. case map_of row c of None \<Rightarrow> NaN | Some v \<Rightarrow> v) cols]\<rparr>)"

section \<open>The tabular store (utils/helpers.py)\<close>

text \<open>
  The pandas readers and writers are outside the repository: they are parameters, acting on
  a file system of any type. A reader returns a frame or raises; a writer returns the file
  system it leaves behind, with the exception it raised if any.
\<close>

record 'fs pandas =
  read_excel :: "string \<Rightarrow> 'fs \<Rightarrow> error + dataframe"
  read_csv :: "string \<Rightarrow> 'fs \<Rightarrow> error + dataframe"
  to_excel :: "dataframe \<Rightarrow> string \<Rightarrow> 'fs \<Rightarrow> error option \<times> 'fs"
  to_csv :: "dataframe \<Rightarrow> string \<Rightarrow> 'fs \<Rightarrow> error option \<times> 'fs"

definition endswith :: "string \<Rightarrow> string \<Rightarrow> bool" where
  "endswith s suf = (length suf \<le> length s \<and> drop (length s - length suf) s = suf)"

definition read_data :: "'fs pandas \<Rightarrow> string \<Rightarrow> 'fs \<Rightarrow> error + dataframe" where
  "read_data pd path fs =
     (if endswith (py_lower path) ''.xlsx'' then read_excel pd path fs else read_csv pd path fs)"

definition write_data :: "'fs pandas \<Rightarrow> dataframe \<Rightarrow> string \<Rightarrow> 'fs \<Rightarrow> error option \<times> 'fs" where
  "write_data pd df path fs =
     (if endswith (py_lower path) ''.xlsx'' then to_excel pd df path fs else to_csv pd df path fs)"

section \<open>The session record store (core/session_manager.py)\<close>

record session_manager =
  sm_mapping :: pydict
  sm_records :: "(string \<rightharpoonup> pyval) list"
  sm_restrictions :: "string \<rightharpoonup> bool"
  session_path :: string

definition mapping_get :: "pydict \<Rightarrow> string \<Rightarrow> string" where
  "mapping_get m k = dict_get m k k"

text \<open>The row dictionary \<open>{col: "" for col in df.columns}\<close>.\<close>

definition empty_row :: "string list \<Rightarrow> (string \<times> pyval) list" where
  "empty_row cols = fold (\<lambda>c d. AList.update c (Str []) d) cols []"

text \<open>The loop over the four identity fields that fills the new row.\<close>

fun fill_identity :: "pydict \<Rightarrow> pydict \<Rightarrow> string list \<Rightarrow> string list \<Rightarrow> (string \<times> pyval) list
    \<Rightarrow> (string \<times> pyval) list" where
  "fill_identity m rec cols [] row = row"
| "fill_identity m rec cols (k # ks) row =
     (let col_name = mapping_get m k
      in fill_identity m rec cols ks
           (if col_name \<in> set cols then AList.update col_name (Str (dict_get rec k [])) row
            else row))"

text \<open>
  The in-memory part of \<open>add_record\<close>, from the frame read to the frame written: Inl is the
  exception raised before anything is written.
\<close>

definition add_record_frame :: "pydict \<Rightarrow> pydict \<Rightarrow> dataframe \<Rightarrow> error + dataframe" where
  "add_record_frame m rec df =
     (let card_col = mapping_get m ''card_id'';
          att_col = mapping_get m ''attendance'';
          notes_col = mapping_get m ''notes'';
          timestamp_col = mapping_get m ''timestamp''
      in case index_of card_col (columns df) of
           None \<Rightarrow> Inl (KeyError card_col)
         | Some jc \<Rightarrow>
            (case rec ''card_id'' of
               None \<Rightarrow> Inl (KeyError ''card_id'')
             | Some cid \<Rightarrow>
                (let sel = astype_str_eq df jc cid
                 in if list_ex id sel
                    then
                      (let existing_timestamp =
                             (case index_of timestamp_col (columns df) of
                                None \<Rightarrow> Str []
                              | Some jt \<Rightarrow>
                                  (case loc_values sel jt df of [] \<Rightarrow> NaN | v # _ \<Rightarrow> v));
                           df1 = (if truthy rec ''timestamp''
                                  then loc_assign sel timestamp_col
                                         (Str (dict_get rec ''timestamp'' [])) df
                                  else loc_assign sel timestamp_col existing_timestamp df)
                       in case rec ''attendance'' of
                            None \<Rightarrow> Inl (KeyError ''attendance'')
                          | Some a \<Rightarrow>
                             (case rec ''notes'' of
                                None \<Rightarrow> Inl (KeyError ''notes'')
                              | Some n \<Rightarrow>
                                 Inr (loc_assign sel notes_col (Str n)
                                        (loc_assign sel att_col (Str a) df1))))
                    else
                      (let row = fill_identity m rec (columns df)
                                   [''card_id'', ''student_id'', ''name'', ''phone'']
                                   (empty_row (columns df))
                       in case rec ''attendance'' of
                            None \<Rightarrow> Inl (KeyError ''attendance'')
                          | Some a \<Rightarrow>
                             (case rec ''notes'' of
                                None \<Rightarrow> Inl (KeyError ''notes'')
                              | Some n \<Rightarrow>
                                 Inr (concat_row df
                                        (AList.update timestamp_col
                                           (Str (dict_get rec ''timestamp'' []))
                                           (AList.update notes_col (Str n)
                                              (AList.update att_col (Str a) row)))))))))"

text \<open>
  \<open>SessionManager.add_record\<close>: read the whole table, edit it in memory, write it back. The
  result is the exception that reached the caller, if any, and the file system left behind.
\<close>

definition add_record :: "'fs pandas \<Rightarrow> session_manager \<Rightarrow> pydict \<Rightarrow> 'fs \<Rightarrow> error option \<times> 'fs" where
  "add_record pd sm rec fs =
     (case read_data pd (session_path sm) fs of
        Inl e \<Rightarrow> (Some e, fs)
      | Inr df \<Rightarrow>
         (case add_record_frame (sm_mapping sm) rec df of
            Inl e \<Rightarrow> (Some e, fs)
          | Inr df' \<Rightarrow> write_data pd df' (session_path sm) fs))"

text \<open>
  A store that keeps each table in a dictionary under its path, to run the operations on
  concrete inputs: reading a path that holds no table fails, and so does writing to a path
  in the list of write-protected paths, which leaves the dictionary as it was.
\<close>

definition dict_read :: "string \<Rightarrow> (string \<rightharpoonup> dataframe) \<Rightarrow> error + dataframe" where
  "dict_read path fs = (case fs path of None \<Rightarrow> Inl (StoreError path) | Some df \<Rightarrow> Inr df)"

definition dict_write :: "string list \<Rightarrow> dataframe \<Rightarrow> string \<Rightarrow> (string \<rightharpoonup> dataframe)
    \<Rightarrow> error option \<times> (string \<rightharpoonup> dataframe)" where
  "dict_write locked df path fs =
     (if path \<in> set locked then (Some (StoreError path), fs) else (None, fs(path \<mapsto> df)))"

definition dict_store :: "string list \<Rightarrow> (string \<rightharpoonup> dataframe) pandas" where
  "dict_store locked =
     \<lparr>read_excel = dict_read, read_csv = dict_read,
      to_excel = dict_write locked, to_csv = dict_write locked\<rparr>"

section \<open>The scan window (ui/scan_window.py)\<close>

subsection \<open>Clock and tags\<close>

record datetime =
  dt_year :: nat
  dt_month :: nat
  dt_day :: nat
  dt_hour :: nat
  dt_minute :: nat
  dt_second :: nat

definition digit_of :: "nat \<Rightarrow> char" where
  "digit_of d = ''0123456789'' ! (d mod 10)"

definition fmt2 :: "nat \<Rightarrow> string" where
  "fmt2 n = [digit_of (n div 10), digit_of n]"

definition fmt4 :: "nat \<Rightarrow> string" where
  "fmt4 n = [digit_of (n div 1000), digit_of (n div 100), digit_of (n div 10), digit_of n]"

text \<open>\<open>f"[{datetime.now():%H:%M:%S}]"\<close>\<close>

definition scan_now_tag :: "datetime \<Rightarrow> string" where
  "scan_now_tag now =
     ''['' @ fmt2 (dt_hour now) @ '':'' @ fmt2 (dt_minute now) @ '':'' @ fmt2 (dt_second now) @ '']''"

text \<open>\<open>datetime.now().strftime("%d/%m/%Y, %H:%M:%S")\<close>\<close>

definition strftime_full :: "datetime \<Rightarrow> string" where
  "strftime_full now =
     fmt2 (dt_day now) @ ''/'' @ fmt2 (dt_month now) @ ''/'' @ fmt4 (dt_year now) @ '', ''
     @ fmt2 (dt_hour now) @ '':'' @ fmt2 (dt_minute now) @ '':'' @ fmt2 (dt_second now)"

subsection \<open>Notes\<close>

definition newline :: string where
  "newline = [CHR 0x0A]"

definition scan_append_notes :: "pyval \<Rightarrow> pyval \<Rightarrow> string" where
  "scan_append_notes original addition =
     (let original_clean = clean_value original; addition_clean = clean_value addition
      in if addition_clean = [] then original_clean
         else if original_clean = [] then addition_clean
         else py_rstrip original_clean @ newline @ addition_clean)"

datatype task = Exam | Homework

fun task_key :: "task \<Rightarrow> string" where
  "task_key Exam = ''exam''"
| "task_key Homework = ''homework''"

fun task_label :: "task \<Rightarrow> string" where
  "task_label Exam = ''Exam''"
| "task_label Homework = ''Homework''"

fun py_join :: "string \<Rightarrow> string list \<Rightarrow> string" where
  "py_join sep [] = []"
| "py_join sep [x] = x"
| "py_join sep (x # y # ys) = x @ sep @ py_join sep (y # ys)"

definition scan_describe_tasks :: "task list \<Rightarrow> string" where
  "scan_describe_tasks tasks =
     (if tasks = [] then []
      else (let mapped = map task_label tasks
            in if length mapped = 1 then hd mapped else py_join '' & '' mapped))"

definition py_or :: "string \<Rightarrow> string \<Rightarrow> string" where
  "py_or a b = (if a \<noteq> [] then a else b)"

subsection \<open>Window state\<close>

text \<open>
  The focus context is a dictionary in the source; a key that a context lacks reads as the
  default that the code passes to \<open>get\<close> (no iid, empty strings and lists, \<open>found\<close> true).
\<close>

record focus_context =
  ctx_iid :: "string option"
  ctx_card_id :: string
  ctx_card_display :: string
  ctx_name :: string
  ctx_student_id :: string
  ctx_attendance :: string
  ctx_existing_notes :: string
  ctx_timestamp :: string
  ctx_source :: string
  ctx_focus_iids :: "string list"
  ctx_found :: bool
  ctx_homework :: string
  ctx_exam :: string
  ctx_missing_tasks :: "task list"
  ctx_already_attended :: bool
  ctx_allow_cancel :: bool
  ctx_status :: "string option"
  ctx_display_name :: string
  ctx_skip_filter :: bool

definition empty_context :: focus_context where
  "empty_context =
     \<lparr>ctx_iid = None, ctx_card_id = [], ctx_card_display = [], ctx_name = [],
      ctx_student_id = [], ctx_attendance = [], ctx_existing_notes = [], ctx_timestamp = [],
      ctx_source = [], ctx_focus_iids = [], ctx_found = True, ctx_homework = [], ctx_exam = [],
      ctx_missing_tasks = [], ctx_already_attended = False, ctx_allow_cancel = False,
      ctx_status = None, ctx_display_name = [], ctx_skip_filter = False\<rparr>"

text \<open>
  The state of a scan window that the scan logic reads and writes: the tree view (items by
  iid, each a dictionary from column to cell text), the text of the scan entry and of the
  notes box of the focus view (None before the focus view exists), the focus context and
  the counters. Which rows the tree view currently shows is presentation and is left out.
\<close>

record scan_window =
  read_only :: bool
  session :: session_manager
  all_iids :: "string list"
  tree :: "string \<rightharpoonup> (string \<rightharpoonup> string)"
  scan_entry :: string
  focus_notes :: "string option"
  scan_focus_ctx :: "focus_context option"
  manual_additions :: nat
  cancellations :: nat
  unknown_counter :: "int option"

definition restriction_on :: "scan_window \<Rightarrow> string \<Rightarrow> bool" where
  "restriction_on w t = (case sm_restrictions (session w) t of None \<Rightarrow> False | Some b \<Rightarrow> b)"

text \<open>The columns of the tree view, fixed when the window is built.\<close>

definition tree_columns :: "scan_window \<Rightarrow> string list" where
  "tree_columns w =
     [''card_id'', ''student_id'', ''name'', ''phone'']
     @ (if restriction_on w ''exam'' then [''exam''] else [])
     @ (if restriction_on w ''homework'' then [''homework''] else [])
     @ [''attendance'', ''notes'', ''timestamp'']"

definition tree_exists :: "scan_window \<Rightarrow> string \<Rightarrow> bool" where
  "tree_exists w iid = (tree w iid \<noteq> None)"

text \<open>\<open>tree.set(iid, column)\<close> raises for an item the tree does not have; the caller catches it.\<close>

definition scan_tree_get :: "scan_window \<Rightarrow> string \<Rightarrow> string \<Rightarrow> string" where
  "scan_tree_get w iid column =
     (if column \<notin> set (tree_columns w) then []
      else (case tree w iid of
              None \<Rightarrow> []
            | Some item \<Rightarrow> clean_value (Str (case item column of None \<Rightarrow> [] | Some v \<Rightarrow> v))))"

subsection \<open>Lookup and requirements\<close>

text \<open>
  \<open>list(set(candidates))\<close> has no specified order; the model keeps the order of the
  candidates. The sort is stable and puts an iid equal to the normalised token first.
\<close>

definition scan_lookup_matches :: "scan_window \<Rightarrow> pyval \<Rightarrow> string list" where
  "scan_lookup_matches w card_id =
     (let normalized = scan_normalize_card card_id
      in if normalized = [] then []
         else (let candidates =
                     filter (\<lambda>iid. tree_exists w iid
                                \<and> (scan_normalize_card (Str iid) = normalized
                                    \<or> scan_normalize_card (Str (scan_tree_get w iid ''card_id''))
                                        = normalized))
                       (all_iids w);
                   unique = remdups candidates
               in filter (\<lambda>x. x = normalized) unique @ filter (\<lambda>x. x \<noteq> normalized) unique))"

definition scan_collect_missing_tasks :: "scan_window \<Rightarrow> string \<Rightarrow> task list" where
  "scan_collect_missing_tasks w iid =
     (let exam_grade = scan_tree_get w iid ''exam'';
          missing = (if restriction_on w ''exam'' \<and> ''exam'' \<in> set (tree_columns w)
                        \<and> (exam_grade = [] \<or> exam_grade = ''0'')
                     then [Exam] else []);
          hw_grade = scan_tree_get w iid ''homework''
      in if restriction_on w ''homework'' \<and> ''homework'' \<in> set (tree_columns w)
            \<and> (hw_grade = [] \<or> hw_grade = ''0'')
         then missing @ [Homework] else missing)"

definition scan_collect_new_note :: "scan_window \<Rightarrow> string" where
  "scan_collect_new_note w =
     (case focus_notes w of
        None \<Rightarrow> []
      | Some txt \<Rightarrow>
          (let typed = py_strip txt
           in if typed = ''Add notes here...'' then [] else clean_value (Str typed)))"

definition scan_determine_status :: "focus_context \<Rightarrow> string" where
  "scan_determine_status scan_ctx =
     (if ctx_status scan_ctx = Some ''not_found'' then ''not_found''
      else if ctx_status scan_ctx = Some ''duplicate'' then ''duplicate''
      else if \<not> ctx_found scan_ctx then ''not_found''
      else if ctx_missing_tasks scan_ctx \<noteq> []
           then (if Exam \<in> set (ctx_missing_tasks scan_ctx) then ''missing_exam''
                 else ''missing_homework'')
      else ''ok'')"

definition scan_build_context_for_iid :: "scan_window \<Rightarrow> string \<Rightarrow> string \<Rightarrow> focus_context" where
  "scan_build_context_for_iid w iid source =
     (let c0 = empty_context
            \<lparr>ctx_iid := Some iid,
             ctx_card_id := scan_normalize_card (Str iid),
             ctx_card_display := py_or (scan_tree_get w iid ''card_id'') (scan_normalize_card (Str iid)),
             ctx_name := scan_tree_get w iid ''name'',
             ctx_student_id := scan_tree_get w iid ''student_id'',
             ctx_attendance := py_lower (scan_tree_get w iid ''attendance''),
             ctx_existing_notes := scan_tree_get w iid ''notes'',
             ctx_timestamp := scan_tree_get w iid ''timestamp'',
             ctx_source := source, ctx_focus_iids := [iid], ctx_found := True,
             ctx_homework := scan_tree_get w iid ''homework'',
             ctx_exam := scan_tree_get w iid ''exam''\<rparr>;
          c1 = c0\<lparr>ctx_missing_tasks := scan_collect_missing_tasks w iid\<rparr>;
          c2 = c1\<lparr>ctx_already_attended := (ctx_attendance c1 = ''attend'')\<rparr>;
          c3 = c2\<lparr>ctx_allow_cancel := ctx_already_attended c2\<rparr>;
          c4 = c3\<lparr>ctx_status := Some (scan_determine_status c3)\<rparr>
      in c4\<lparr>ctx_display_name :=
               py_or (ctx_name c4) (py_or (ctx_student_id c4) (py_or (ctx_card_display c4) ''Student''))\<rparr>)"

definition scan_build_not_found_context :: "string \<Rightarrow> focus_context" where
  "scan_build_not_found_context card_id =
     empty_context
       \<lparr>ctx_iid := None, ctx_card_id := card_id, ctx_card_display := card_id,
        ctx_name := ''Card Not Linked'', ctx_student_id := [], ctx_attendance := [],
        ctx_existing_notes := [], ctx_timestamp := [], ctx_source := ''scan'',
        ctx_focus_iids := [], ctx_found := False, ctx_missing_tasks := [],
        ctx_status := Some ''not_found'', ctx_display_name := py_or card_id ''Card''\<rparr>"

subsection \<open>The focus view\<close>

definition notes_placeholder :: string where
  "notes_placeholder = ''Add notes here...''"

text \<open>
  \<open>scan_focus_show\<close>: the context (a copy) becomes the focus context with its status
  filled in, and the notes box shows the existing notes or the placeholder.
\<close>

definition scan_focus_show :: "focus_context \<Rightarrow> scan_window \<Rightarrow> scan_window" where
  "scan_focus_show scan_ctx w =
     (let status = (case ctx_status scan_ctx of
                      None \<Rightarrow> scan_determine_status scan_ctx
                    | Some s \<Rightarrow> if s \<noteq> [] then s else scan_determine_status scan_ctx);
          ctx = scan_ctx\<lparr>ctx_status := Some status\<rparr>
      in w\<lparr>scan_focus_ctx := Some ctx,
           focus_notes := Some (if ctx_existing_notes ctx \<noteq> [] then ctx_existing_notes ctx
                                else notes_placeholder)\<rparr>)"

definition scan_focus_clear :: "scan_window \<Rightarrow> scan_window" where
  "scan_focus_clear w =
     w\<lparr>scan_focus_ctx := None,
       focus_notes := (case focus_notes w of None \<Rightarrow> None | Some _ \<Rightarrow> Some notes_placeholder)\<rparr>"

subsection \<open>Committing attendance\<close>

definition build_record_payload :: "scan_window \<Rightarrow> string \<Rightarrow> string \<Rightarrow> string \<Rightarrow> string \<Rightarrow> pydict" where
  "build_record_payload w code attendance notes timestamp =
     (\<lambda>col. if col \<in> set [''student_id'', ''name'', ''phone'', ''exam'', ''homework'']
                  \<and> col \<in> set (tree_columns w)
             then Some (scan_tree_get w code col) else None)
       (''card_id'' \<mapsto> code, ''attendance'' \<mapsto> attendance, ''notes'' \<mapsto> notes,
        ''timestamp'' \<mapsto> timestamp)"

definition update_row :: "scan_window \<Rightarrow> string \<Rightarrow> string \<Rightarrow> string \<Rightarrow> string option \<Rightarrow> scan_window" where
  "update_row w code attendance notes timestamp =
     (case tree w code of
        None \<Rightarrow> w
      | Some item \<Rightarrow>
          (let item1 = item(''attendance'' \<mapsto> clean_value (Str attendance),
                            ''notes'' \<mapsto> clean_value (Str notes));
               item2 = (case timestamp of
                          None \<Rightarrow> item1
                        | Some t \<Rightarrow> item1(''timestamp'' \<mapsto> clean_value (Str t)))
           in w\<lparr>tree := (tree w)(code \<mapsto> item2)\<rparr>))"

text \<open>
  \<open>_set_attendance\<close>: the result is whether the attendance was committed, the window and
  the file system. An exception of \<open>add_record\<close> is caught: the tree is left as it was.
\<close>

definition set_attendance :: "'fs pandas \<Rightarrow> datetime \<Rightarrow> string \<Rightarrow> string \<Rightarrow> string \<Rightarrow> bool
    \<Rightarrow> string option \<Rightarrow> scan_window \<Rightarrow> 'fs \<Rightarrow> bool \<times> scan_window \<times> 'fs" where
  "set_attendance pd now code attendance notes warn_on_duplicate timestamp_override w fs =
     (if read_only w \<or> \<not> tree_exists w code then (False, w, fs)
      else (let target_attendance = clean_value (Str attendance)
            in if warn_on_duplicate \<and> py_lower target_attendance = ''attend''
                  \<and> py_lower (scan_tree_get w code ''attendance'') = ''attend''
               then (False, w, fs)
               else (let timestamp = (case timestamp_override of
                                        None \<Rightarrow> strftime_full now
                                      | Some t \<Rightarrow> if t \<noteq> [] then t else strftime_full now);
                         rec = build_record_payload w code target_attendance
                                 (clean_value (Str notes)) timestamp
                     in case add_record pd (session w) rec fs of
                          (Some e, fs') \<Rightarrow> (False, w, fs')
                        | (None, fs') \<Rightarrow>
                            (True, update_row w code target_attendance notes (Some timestamp), fs'))))"

definition scan_commit_attendance :: "'fs pandas \<Rightarrow> datetime \<Rightarrow> string \<Rightarrow> string \<Rightarrow> string
    \<Rightarrow> string option \<Rightarrow> scan_window \<Rightarrow> 'fs \<Rightarrow> bool \<times> scan_window \<times> 'fs" where
  "scan_commit_attendance pd now iid attendance notes timestamp w fs =
     set_attendance pd now iid attendance notes False timestamp w fs"

subsection \<open>Scan events and terminal actions\<close>

text \<open>The note that each action commits, from the focus context and the notes box.\<close>

definition auto_attend_note :: "focus_context \<Rightarrow> scan_window \<Rightarrow> string" where
  "auto_attend_note ctx w =
     scan_append_notes (Str (ctx_existing_notes ctx)) (Str (scan_collect_new_note w))"

definition completed_note :: "datetime \<Rightarrow> focus_context \<Rightarrow> scan_window \<Rightarrow> string" where
  "completed_note now ctx w =
     (let tag = scan_now_tag now;
          desc = py_or (scan_describe_tasks (ctx_missing_tasks ctx)) ''task'';
          action_note = tag @ '' Completed '' @ desc @ '' at center.'';
          base = scan_append_notes (Str (ctx_existing_notes ctx)) (Str action_note);
          typed = scan_collect_new_note w
      in scan_append_notes (Str base) (Str typed))"

definition override_note :: "datetime \<Rightarrow> focus_context \<Rightarrow> scan_window \<Rightarrow> string" where
  "override_note now ctx w =
     (let tag = scan_now_tag now;
          desc = py_or (scan_describe_tasks (ctx_missing_tasks ctx)) ''task'';
          action_note = tag @ '' Attended with override (missing '' @ desc @ '').'';
          base = scan_append_notes (Str (ctx_existing_notes ctx)) (Str action_note);
          typed = scan_collect_new_note w
      in scan_append_notes (Str base) (Str typed))"

definition deny_note :: "datetime \<Rightarrow> focus_context \<Rightarrow> scan_window \<Rightarrow> string" where
  "deny_note now ctx w =
     (let tag = scan_now_tag now;
          desc = py_or (scan_describe_tasks (ctx_missing_tasks ctx)) ''requirements'';
          action_note = tag @ '' Denied Entry: No '' @ desc @ ''.'';
          base = scan_append_notes (Str (ctx_existing_notes ctx)) (Str action_note);
          typed = scan_collect_new_note w
      in scan_append_notes (Str base) (Str typed))"

definition cancel_note :: "datetime \<Rightarrow> focus_context \<Rightarrow> scan_window \<Rightarrow> string" where
  "cancel_note now ctx w =
     (let tag = scan_now_tag now;
          action_note = tag @ '' Canceled.'';
          base = scan_append_notes (Str (ctx_existing_notes ctx)) (Str action_note);
          typed = scan_collect_new_note w
      in scan_append_notes (Str base) (Str typed))"

text \<open>
  \<open>scan_handle_auto_attend\<close>. On success the source schedules the focus view to clear after
  a delay; the timer is not part of the model.
\<close>

definition scan_handle_auto_attend :: "'fs pandas \<Rightarrow> datetime \<Rightarrow> focus_context \<Rightarrow> scan_window \<Rightarrow> 'fs
    \<Rightarrow> scan_window \<times> 'fs" where
  "scan_handle_auto_attend pd now ctx w fs =
     (case ctx_iid ctx of
        None \<Rightarrow> (w, fs)
      | Some iid \<Rightarrow>
          (let tag = scan_now_tag now;
               final_note = auto_attend_note ctx w;
               (success, w', fs') = scan_commit_attendance pd now iid ''attend'' final_note (Some tag) w fs
           in (w', fs')))"

definition scan_on_open_row :: "'fs pandas \<Rightarrow> datetime \<Rightarrow> string \<Rightarrow> string \<Rightarrow> string option
    \<Rightarrow> scan_window \<Rightarrow> 'fs \<Rightarrow> scan_window \<times> 'fs" where
  "scan_on_open_row pd now iid source card_id w fs =
     (if read_only w \<or> \<not> tree_exists w iid then (w, fs)
      else (let ctx0 = scan_build_context_for_iid w iid source;
                ctx = (case card_id of
                             None \<Rightarrow> ctx0
                           | Some c \<Rightarrow> if c \<noteq> [] then ctx0\<lparr>ctx_card_id := c, ctx_card_display := c\<rparr>
                                       else ctx0);
                w1 = scan_focus_show ctx w
            in if ctx_status ctx = Some ''ok'' \<and> \<not> ctx_already_attended ctx
               then scan_handle_auto_attend pd now ctx w1 fs
               else (w1, fs)))"

definition scan_on_scan :: "'fs pandas \<Rightarrow> datetime \<Rightarrow> scan_window \<Rightarrow> 'fs \<Rightarrow> scan_window \<times> 'fs" where
  "scan_on_scan pd now w fs =
     (if read_only w then (w, fs)
      else (let normalized = scan_normalize_card (Str (scan_entry w));
                w1 = w\<lparr>scan_entry := []\<rparr>
            in if normalized = [] then (w1, fs)
               else (let matches = scan_lookup_matches w1 (Str normalized)
                     in if matches = []
                        then (scan_focus_show (scan_build_not_found_context normalized) w1, fs)
                        else if length matches > 1
                        then (scan_focus_show
                                (empty_context
                                   \<lparr>ctx_card_id := normalized, ctx_card_display := normalized,
                                    ctx_name := ''Multiple Records Found'', ctx_student_id := [],
                                    ctx_status := Some ''duplicate'', ctx_focus_iids := matches,
                                    ctx_skip_filter := True\<rparr>) w1, fs)
                        else scan_on_open_row pd now (hd matches) ''scan'' (Some normalized) w1 fs)))"

text \<open>The four buttons of the focus view that end in a commit.\<close>

definition focus_action :: "'fs pandas \<Rightarrow> datetime \<Rightarrow> string \<Rightarrow> (focus_context \<Rightarrow> string)
    \<Rightarrow> scan_window \<Rightarrow> 'fs \<Rightarrow> scan_window \<times> 'fs" where
  "focus_action pd now attendance final_note w fs =
     (case scan_focus_ctx w of
        None \<Rightarrow> (w, fs)
      | Some ctx \<Rightarrow>
          (case ctx_iid ctx of
             None \<Rightarrow> (w, fs)
           | Some iid \<Rightarrow>
               if iid = [] then (w, fs)
               else (let (success, w', fs') =
                           scan_commit_attendance pd now iid attendance (final_note ctx)
                             (Some (scan_now_tag now)) w fs
                     in (if success then scan_focus_clear w' else w', fs'))))"

definition scan_focus_on_completed :: "'fs pandas \<Rightarrow> datetime \<Rightarrow> scan_window \<Rightarrow> 'fs \<Rightarrow> scan_window \<times> 'fs" where
  "scan_focus_on_completed pd now w fs =
     focus_action pd now ''attend'' (\<lambda>ctx. completed_note now ctx w) w fs"

definition scan_focus_on_override :: "'fs pandas \<Rightarrow> datetime \<Rightarrow> scan_window \<Rightarrow> 'fs \<Rightarrow> scan_window \<times> 'fs" where
  "scan_focus_on_override pd now w fs =
     focus_action pd now ''attend'' (\<lambda>ctx. override_note now ctx w) w fs"

definition scan_focus_on_deny :: "'fs pandas \<Rightarrow> datetime \<Rightarrow> scan_window \<Rightarrow> 'fs \<Rightarrow> scan_window \<times> 'fs" where
  "scan_focus_on_deny pd now w fs =
     focus_action pd now [] (\<lambda>ctx. deny_note now ctx w) w fs"

definition scan_focus_on_cancel_attendance :: "'fs pandas \<Rightarrow> datetime \<Rightarrow> scan_window \<Rightarrow> 'fs
    \<Rightarrow> scan_window \<times> 'fs" where
  "scan_focus_on_cancel_attendance pd now w fs =
     (case scan_focus_ctx w of
        None \<Rightarrow> (w, fs)
      | Some ctx \<Rightarrow>
          (case ctx_iid ctx of
             None \<Rightarrow> (w, fs)
           | Some iid \<Rightarrow>
               if iid = [] then (w, fs)
               else focus_action pd now [] (\<lambda>ctx. cancel_note now ctx w)
                      (w\<lparr>cancellations := cancellations w + 1\<rparr>) fs))"

section \<open>Column map validation (ui/settings_window.py)\<close>

definition mapping_placeholder :: string where
  "mapping_placeholder = ''-- Select --''"

text \<open>The keys of \<open>mapping_fields\<close>, in the order of the source.\<close>

definition mapping_fields :: "string list" where
  "mapping_fields =
     [''card_id'', ''student_id'', ''name'', ''phone'', ''attendance'', ''notes'', ''timestamp'',
      ''exam'', ''homework'']"

text \<open>
  \<open>_collect_mapping\<close>: the text of each field's control, trimmed, the placeholder read as
  empty. The controls are given by the text each one shows.
\<close>

definition collect_mapping :: "(string \<Rightarrow> string) \<Rightarrow> (string \<times> string) list" where
  "collect_mapping mapping_controls =
     map (\<lambda>field_key.
            (let v = py_strip (mapping_controls field_key)
             in (field_key, if v = mapping_placeholder then [] else v)))
       mapping_fields"

definition is_mapping_valid :: "(string \<Rightarrow> string) \<Rightarrow> bool" where
  "is_mapping_valid mapping_controls =
     (let values = map snd (collect_mapping mapping_controls)
      in if values = [] \<or> [] \<in> set values then False
         else length values = length (remdups values))"

section \<open>Manual addition (ui/scan_window.py, ui/dialogs/add_student_dialog.py)\<close>

subsection \<open>Splitting, parsing and printing integers\<close>











subsection \<open>The fallback identifier\<close>






subsection \<open>Submitting the dialog\<close>

text \<open>
  The dialog is opened with the default notes "manual addition" unless the caller gives
  others, and falls back to that string when given an empty one.
\<close>

definition launch_default_notes :: string where
  "launch_default_notes = ''manual addition''"






section \<open>Concrete inputs\<close>

text \<open>
  The example of the specification: the column map sends \<open>card_id\<close> to "RFID" and
  \<open>attendance\<close> to "Present", and the session file holds one row for card 00004521.
\<close>

definition example_sm :: session_manager where
  "example_sm =
     \<lparr>sm_mapping = [''card_id'' \<mapsto> ''RFID'', ''attendance'' \<mapsto> ''Present''],
      sm_records = [], sm_restrictions = [''exam'' \<mapsto> True, ''homework'' \<mapsto> True],
      session_path = ''s.csv''\<rparr>"

definition example_table :: dataframe where
  "example_table =
     \<lparr>columns = [''RFID'', ''Group'', ''Present'', ''notes'', ''timestamp''],
      rows = [[Str ''00004521'', Str ''A'', NaN, NaN, Str ''T1'']]\<rparr>"

text \<open>A session file in which two rows carry the same card id.\<close>

definition duplicate_table :: dataframe where
  "duplicate_table =
     \<lparr>columns = [''RFID'', ''Group'', ''Present'', ''notes'', ''timestamp''],
      rows = [[Str ''00004521'', Str ''A'', NaN, NaN, Str ''T1''],
              [Str ''00004521'', Str ''B'', NaN, Str ''late'', Str ''T2'']]\<rparr>"

text \<open>A moment of the clock.\<close>

definition example_now :: datetime where
  "example_now =
     \<lparr>dt_year = 2026, dt_month = 11, dt_day = 4, dt_hour = 9, dt_minute = 5, dt_second = 59\<rparr>"

text \<open>
  A scan window on the example session: card 00004521 is loaded with a failed exam, and the
  token " 4521 " waits in the scan entry.
\<close>

definition example_window :: scan_window where
  "example_window =
     \<lparr>read_only = False, session = example_sm, all_iids = [''00004521'', ''00000007''],
      tree = [''00004521'' \<mapsto> [''card_id'' \<mapsto> ''4521'', ''name'' \<mapsto> ''Ann'', ''exam'' \<mapsto> ''0'',
                                 ''homework'' \<mapsto> ''9''],
              ''00000007'' \<mapsto> [''card_id'' \<mapsto> ''7'', ''name'' \<mapsto> ''Bob'', ''exam'' \<mapsto> ''8'',
                                 ''homework'' \<mapsto> ''7'']],
      scan_entry = '' 4521 '', focus_notes = None, scan_focus_ctx = None,
      manual_additions = 0, cancellations = 0, unknown_counter = None\<rparr>"


text \<open>A window in which a second item carries the card id 4521 in its card_id column.\<close>

definition duplicate_window :: scan_window where
  "duplicate_window =
     example_window
       \<lparr>all_iids := [''00004521'', ''legacy''],
        tree := [''00004521'' \<mapsto> [''card_id'' \<mapsto> ''4521'', ''name'' \<mapsto> ''Ann''],
                 ''legacy'' \<mapsto> [''card_id'' \<mapsto> ''4521'', ''name'' \<mapsto> ''Bob'']]\<rparr>"

text \<open>Controls of the column map in which every field but the exam has a header of its own.\<close>

definition incomplete_controls :: "string \<Rightarrow> string" where
  "incomplete_controls field_key = (if field_key = ''exam'' then ''-- Select --'' else field_key)"


section \<open>Properties of normalisation\<close>

lemma digit_char_not_space: "digit_char c \<Longrightarrow> \<not> is_space c"
  by (auto simp: digit_char_def is_space_def Let_def)

lemma lower_char_digit: "digit_char c \<Longrightarrow> lower_char c = c"
  by (auto simp: digit_char_def lower_char_def Let_def)

lemma py_rstrip_no_space: "s \<noteq> [] \<Longrightarrow> \<not> is_space (last s) \<Longrightarrow> py_rstrip s = s"
  unfolding py_rstrip_def by (cases s rule: rev_cases) auto

lemma py_lstrip_no_space: "s \<noteq> [] \<Longrightarrow> \<not> is_space (hd s) \<Longrightarrow> py_lstrip s = s"
  unfolding py_lstrip_def by (cases s) auto

lemma py_strip_fixed: "s \<noteq> [] \<Longrightarrow> \<not> is_space (hd s) \<Longrightarrow> \<not> is_space (last s) \<Longrightarrow> py_strip s = s"
  by (simp add: py_strip_def py_lstrip_no_space py_rstrip_no_space)

lemma py_rstrip_ends: "py_rstrip s \<noteq> [] \<Longrightarrow> \<not> is_space (last (py_rstrip s))"
  unfolding py_rstrip_def
  by (metis dropWhile_eq_Nil_conv hd_dropWhile last_rev rev_is_Nil_conv)

lemma py_rstrip_hd: "py_rstrip s \<noteq> [] \<Longrightarrow> hd (py_rstrip s) = hd s"
  unfolding py_rstrip_def
  by (metis append_Nil2 dropWhile_eq_Nil_conv hd_append2 rev_append rev_is_Nil_conv rev_rev_ident takeWhile_dropWhile_id)

lemma py_strip_ends:
  assumes "py_strip s \<noteq> []"
  shows "\<not> is_space (hd (py_strip s))" and "\<not> is_space (last (py_strip s))"
proof -
  have ne: "py_lstrip s \<noteq> []" using assms by (auto simp: py_strip_def py_rstrip_def)
  have "hd (py_strip s) = hd (py_lstrip s)"
    using assms by (simp add: py_strip_def py_rstrip_hd)
  moreover have "\<not> is_space (hd (py_lstrip s))"
    using ne unfolding py_lstrip_def by (simp add: hd_dropWhile)
  ultimately show "\<not> is_space (hd (py_strip s))" by simp
  show "\<not> is_space (last (py_strip s))"
    using assms by (simp add: py_strip_def py_rstrip_ends)
qed

lemma py_strip_idem: "py_strip (py_strip s) = py_strip s"
proof (cases "py_strip s = []")
  case True
  have "py_strip [] = []" by (simp add: py_strip_def py_lstrip_def py_rstrip_def)
  with True show ?thesis by simp
next
  case False
  then show ?thesis by (simp add: py_strip_fixed py_strip_ends)
qed

lemma py_strip_digits: "list_all digit_char s \<Longrightarrow> py_strip s = s"
proof (cases "s = []")
  case True
  then show ?thesis by (simp add: py_strip_def py_lstrip_def py_rstrip_def)
next
  case False
  assume "list_all digit_char s"
  with False have "digit_char (hd s)" "digit_char (last s)"
    by (auto simp: list_all_iff)
  with False show ?thesis by (simp add: py_strip_fixed digit_char_not_space)
qed

lemma py_lower_digits: "list_all digit_char s \<Longrightarrow> py_lower s = s"
  by (induction s) (auto simp: py_lower_def lower_char_digit)

lemma py_isdigit_not_nan: "py_isdigit s \<Longrightarrow> py_lower s \<noteq> ''nan''"
proof
  assume d: "py_isdigit s" and n: "py_lower s = ''nan''"
  from d have "py_lower s = s" by (simp add: py_isdigit_def py_lower_digits)
  with n have "s = ''nan''" by simp
  with d show False by (simp add: py_isdigit_def digit_char_def)
qed

lemma py_zfill_digits:
  "py_isdigit s \<Longrightarrow> py_zfill w s = replicate (w - length s) (CHR ''0'') @ s"
  by (cases s) (auto simp: py_zfill_def py_isdigit_def digit_char_def)

lemma clean_value_Str:
  "clean_value (Str s) = (if py_lower (py_strip s) = ''nan'' then '''' else py_strip s)"
  by (simp add: clean_value_def Let_def)

lemma clean_value_cases:
  "clean_value v = '''' \<or> (py_strip (clean_value v) = clean_value v \<and> py_lower (clean_value v) \<noteq> ''nan'')"
  by (cases v) (auto simp: clean_value_def Let_def py_strip_idem)

lemma clean_value_empty: "clean_value (Str []) = []"
  by (simp add: clean_value_Str py_strip_def py_lstrip_def py_rstrip_def py_lower_def)

lemma clean_value_clean: "clean_value (Str (clean_value v)) = clean_value v"
proof (cases "clean_value v = []")
  case True
  then show ?thesis by (simp add: clean_value_empty)
next
  case False
  with clean_value_cases [of v] show ?thesis by (simp add: clean_value_Str)
qed

text \<open>
  Claim C2, as the code has it. With \<open>t\<close> the scan token after trimming: when \<open>t\<close> is a
  non-empty run of digits of length at most 8, normalisation returns \<open>t\<close> left-padded with
  zeros to exactly 8 characters; when \<open>t\<close> is not numeric and is not the word "nan" in any
  letter case, normalisation returns \<open>t\<close> unchanged; when \<open>t\<close> is "nan" in any letter case,
  normalisation returns the empty string.
\<close>

theorem scan_normalize_card_spec:
  "(py_isdigit (py_strip s) \<and> length (py_strip s) \<le> 8 \<longrightarrow>
      scan_normalize_card (Str s) = replicate (8 - length (py_strip s)) (CHR ''0'') @ py_strip s
      \<and> length (scan_normalize_card (Str s)) = 8)
   \<and> (\<not> py_isdigit (py_strip s) \<and> py_lower (py_strip s) \<noteq> ''nan'' \<longrightarrow>
        scan_normalize_card (Str s) = py_strip s)
   \<and> (py_lower (py_strip s) = ''nan'' \<longrightarrow> scan_normalize_card (Str s) = '''')"
  by (auto simp: scan_normalize_card_def clean_value_Str py_zfill_digits py_isdigit_not_nan
      Let_def py_isdigit_def)

theorem scan_normalize_card_spec_witness:
  "scan_normalize_card (Str '' 4521 '') = ''00004521''
   \<and> scan_normalize_card (Str '' ab12 '') = ''ab12''
   \<and> scan_normalize_card (Str ''NaN'') = ''''"
proof -
  have a: "py_strip '' 4521 '' = ''4521''" "py_strip '' ab12 '' = ''ab12''" "py_strip ''NaN'' = ''NaN''"
    by (simp_all add: py_strip_def py_lstrip_def py_rstrip_def is_space_def)
  have b: "py_isdigit ''4521''" "\<not> py_isdigit ''ab12''"
    by (simp_all add: py_isdigit_def digit_char_def)
  have c: "py_lower ''ab12'' \<noteq> ''nan''" "py_lower ''NaN'' = ''nan''"
    by code_simp+
  show ?thesis
    using scan_normalize_card_spec [of "'' 4521 ''"] scan_normalize_card_spec [of "'' ab12 ''"]
      scan_normalize_card_spec [of "''NaN''"] a b c
    by (simp add: numeral_eq_Suc)
qed

text \<open>
  The token "nan" is not numeric, yet normalisation does not return it after trimming:
  \<open>_clean_value\<close> maps it to the empty string.
\<close>

theorem scan_normalize_card_nan_counterexample:
  "\<not> py_isdigit (py_strip ''nan'') \<and> scan_normalize_card (Str ''nan'') \<noteq> py_strip ''nan''"
  by (simp add: scan_normalize_card_def clean_value_def py_strip_def py_lstrip_def py_rstrip_def
      is_space_def py_lower_def lower_char_def py_isdigit_def digit_char_def)

lemma normalize_fixed:
  "scan_normalize_card (Str (scan_normalize_card v)) = scan_normalize_card v"
proof (cases "clean_value v \<noteq> '''' \<and> py_isdigit (clean_value v)")
  case True
  let ?t = "clean_value v"
  let ?r = "py_zfill 8 ?t"
  from True have r: "?r = replicate (8 - length ?t) (CHR ''0'') @ ?t"
    by (simp add: py_zfill_digits)
  have rne: "?r \<noteq> []" using True r by simp
  have z: "digit_char (CHR ''0'')" by (simp add: digit_char_def)
  from True r z have dr: "py_isdigit ?r"
    by (auto simp: py_isdigit_def list_all_iff)
  then have all: "list_all digit_char ?r" by (simp add: py_isdigit_def)
  have len: "8 \<le> length ?r" using r by simp
  have cl: "clean_value (Str ?r) = ?r"
    using dr all by (simp add: clean_value_Str py_strip_digits py_isdigit_not_nan)
  have "scan_normalize_card v = ?r" using True by (simp add: scan_normalize_card_def Let_def)
  moreover have "scan_normalize_card (Str ?r) = ?r"
    using cl dr len rne by (simp add: scan_normalize_card_def py_zfill_def Let_def)
  ultimately show ?thesis by simp
next
  case False
  then have "scan_normalize_card v = clean_value v"
    by (auto simp: scan_normalize_card_def Let_def)
  moreover have "scan_normalize_card (Str (clean_value v)) = clean_value v"
    using False by (auto simp: scan_normalize_card_def clean_value_clean Let_def)
  ultimately show ?thesis by simp
qed

text \<open>
  Claim C10: card-id normalisation is idempotent. Normalising the result of a normalisation,
  whatever value the first one was given, returns that result unchanged; in particular an
  8-digit zero-padded id normalises to itself.
\<close>

theorem scan_normalize_card_idempotent:
  "scan_normalize_card (Str (scan_normalize_card v)) = scan_normalize_card v
   \<and> (length s = 8 \<and> py_isdigit s \<longrightarrow> scan_normalize_card (Str s) = s)"
proof
  show "scan_normalize_card (Str (scan_normalize_card v)) = scan_normalize_card v"
    by (rule normalize_fixed)
  show "length s = 8 \<and> py_isdigit s \<longrightarrow> scan_normalize_card (Str s) = s"
  proof
    assume a: "length s = 8 \<and> py_isdigit s"
    then have "list_all digit_char s" by (simp add: py_isdigit_def)
    then have "clean_value (Str s) = s"
      using a by (simp add: clean_value_Str py_strip_digits py_isdigit_not_nan)
    then show "scan_normalize_card (Str s) = s"
      using a by (simp add: scan_normalize_card_def py_zfill_def Let_def)
  qed
qed

theorem scan_normalize_card_idempotent_witness:
  "scan_normalize_card (Str (scan_normalize_card (Str '' 4521 ''))) = scan_normalize_card (Str '' 4521 '')
   \<and> scan_normalize_card (Str ''00004521'') = ''00004521''"
proof -
  have "length ''00004521'' = 8 \<and> py_isdigit ''00004521''"
    by (simp add: py_isdigit_def digit_char_def)
  then show ?thesis
    using scan_normalize_card_idempotent [of "Str '' 4521 ''" "''00004521''"] by simp
qed

section \<open>Properties of the session record store\<close>

lemma index_of_Some: "index_of x xs = Some j \<Longrightarrow> j < length xs \<and> xs ! j = x"
  by (induction xs arbitrary: j) (auto split: if_splits)

lemma index_of_None: "(index_of x xs = None) = (x \<notin> set xs)"
  by (induction xs) auto

lemma index_of_same: "index_of x xs = Some j \<Longrightarrow> index_of y xs = Some j \<Longrightarrow> x = y"
  by (metis index_of_Some)

lemma zip_map_same: "zip (map P xs) (map f xs) = map (\<lambda>x. (P x, f x)) xs"
  by (induction xs) auto

lemma loc_assign_map:
  assumes "index_of col (columns df) = Some j" and "rows df = map f xs"
  shows "loc_assign (map P xs) col v df =
           df\<lparr>rows := map (\<lambda>x. if P x then (f x)[j := v] else f x) xs\<rparr>"
  using assms by (simp add: loc_assign_def zip_map_same comp_def)

lemma loc_values_map:
  "loc_values (map P (rows df)) j df = map (\<lambda>r. cell r j) (filter P (rows df))"
proof -
  have "filter fst (zip (map P xs) xs) = map (\<lambda>x. (True, x)) (filter P xs)" for xs :: "pyval list list"
    by (induction xs) auto
  then show ?thesis by (simp add: loc_values_def comp_def)
qed


lemma add_record_frame_update:
  assumes jc: "index_of (mapping_get m ''card_id'') (columns df) = Some jc"
    and ja: "index_of (mapping_get m ''attendance'') (columns df) = Some ja"
    and jn: "index_of (mapping_get m ''notes'') (columns df) = Some jn"
    and jt: "index_of (mapping_get m ''timestamp'') (columns df) = Some jt"
    and rc: "rec ''card_id'' = Some cid" and ra: "rec ''attendance'' = Some a"
    and rn: "rec ''notes'' = Some n"
    and hit: "\<exists>r\<in>set (rows df). py_str (cell r jc) = cid"
  shows "add_record_frame m rec df =
           Inr (df\<lparr>rows :=
                  map (\<lambda>r. if py_str (cell r jc) = cid
                            then r[jt := (if truthy rec ''timestamp''
                                          then Str (dict_get rec ''timestamp'' [])
                                          else cell (hd (filter (\<lambda>r. py_str (cell r jc) = cid) (rows df))) jt),
                                   ja := Str a, jn := Str n]
                            else r) (rows df)\<rparr>)"
proof -
  let ?P = "\<lambda>r. py_str (cell r jc) = cid"
  let ?sel = "map ?P (rows df)"
  have sel: "astype_str_eq df jc cid = ?sel" by (simp add: astype_str_eq_def)
  have any: "list_ex id ?sel" using hit by (auto simp: list_ex_iff)
  from hit have ne: "filter ?P (rows df) \<noteq> []" by (auto simp: filter_empty_conv)
  let ?ex = "cell (hd (filter ?P (rows df))) jt"
  have ex: "(case loc_values ?sel jt df of [] \<Rightarrow> NaN | v # _ \<Rightarrow> v) = ?ex"
    using ne by (cases "filter ?P (rows df)") (simp_all add: loc_values_map)
  let ?tsv = "if truthy rec ''timestamp'' then Str (dict_get rec ''timestamp'' []) else ?ex"
  have r0: "rows df = map (\<lambda>r. r) (rows df)" by simp
  have s1: "loc_assign ?sel (mapping_get m ''timestamp'') v df =
              df\<lparr>rows := map (\<lambda>r. if ?P r then r[jt := v] else r) (rows df)\<rparr>" for v
    using loc_assign_map [OF jt r0, of ?P v] by simp
  let ?df1 = "df\<lparr>rows := map (\<lambda>r. if ?P r then r[jt := ?tsv] else r) (rows df)\<rparr>"
  have s2: "loc_assign ?sel (mapping_get m ''attendance'') (Str a) ?df1 =
              df\<lparr>rows := map (\<lambda>r. if ?P r then r[jt := ?tsv, ja := Str a] else r) (rows df)\<rparr>"
    using loc_assign_map [of "mapping_get m ''attendance''" ?df1 ja
        "\<lambda>r. if ?P r then r[jt := ?tsv] else r" "rows df" ?P "Str a"] ja
    by (simp cong: if_cong map_cong)
  let ?df2 = "df\<lparr>rows := map (\<lambda>r. if ?P r then r[jt := ?tsv, ja := Str a] else r) (rows df)\<rparr>"
  have s3: "loc_assign ?sel (mapping_get m ''notes'') (Str n) ?df2 =
              df\<lparr>rows := map (\<lambda>r. if ?P r then r[jt := ?tsv, ja := Str a, jn := Str n] else r) (rows df)\<rparr>"
    using loc_assign_map [of "mapping_get m ''notes''" ?df2 jn
        "\<lambda>r. if ?P r then r[jt := ?tsv, ja := Str a] else r" "rows df" ?P "Str n"] jn
    by (simp cong: if_cong map_cong)
  have df1: "(if truthy rec ''timestamp''
              then loc_assign ?sel (mapping_get m ''timestamp'') (Str (dict_get rec ''timestamp'' [])) df
              else loc_assign ?sel (mapping_get m ''timestamp'') ?ex df) = ?df1"
    by (simp add: s1)
  show ?thesis
    unfolding add_record_frame_def Let_def
    by (simp only: jc jt rc ra rn sel any ex df1 s2 s3 option.case if_True)
qed

lemma map_of_fold_update:
  "map_of (fold (\<lambda>c d. AList.update c v d) cs d0) c = (if c \<in> set cs then Some v else map_of d0 c)"
  by (induction cs arbitrary: d0) (auto simp: update_conv')

lemma keys_fold_update:
  "fst ` set (fold (\<lambda>c d. AList.update c v d) cs d0) = set cs \<union> fst ` set d0"
  by (induction cs arbitrary: d0) (auto simp: dom_update)

lemma map_of_empty_row: "map_of (empty_row cols) c = (if c \<in> set cols then Some (Str []) else None)"
  by (simp add: empty_row_def map_of_fold_update)

lemma keys_empty_row: "fst ` set (empty_row cols) = set cols"
  by (simp add: empty_row_def keys_fold_update)

lemma fill_identity_keys:
  "fst ` set row \<subseteq> set cols \<Longrightarrow> fst ` set (fill_identity m rec cols ks row) \<subseteq> set cols"
  by (induction ks arbitrary: row) (auto simp: Let_def dom_update)

lemma fill_identity_other:
  "c \<notin> mapping_get m ` set ks \<Longrightarrow> map_of (fill_identity m rec cols ks row) c = map_of row c"
  by (induction ks arbitrary: row) (auto simp: Let_def update_conv')

lemma fill_identity_hit:
  "mapping_get m k \<in> set cols \<Longrightarrow> mapping_get m k \<notin> mapping_get m ` set ks \<Longrightarrow>
   map_of (fill_identity m rec cols (k # ks) row) (mapping_get m k) = Some (Str (dict_get rec k []))"
  by (simp add: Let_def fill_identity_other update_conv')

lemma concat_row_same_columns:
  assumes "fst ` set row \<subseteq> set (columns df)"
  shows "concat_row df row =
           df\<lparr>rows := rows df @ [map (\<lambda>c. case map_of row c of None \<Rightarrow> NaN | Some v \<Rightarrow> v) (columns df)]\<rparr>"
proof -
  have "filter (\<lambda>c. c \<notin> set (columns df)) (map fst row) = []"
    using assms by (auto simp: filter_empty_conv)
  then show ?thesis by (cases df) (simp add: concat_row_def)
qed

lemma add_record_frame_append:
  assumes jc: "index_of (mapping_get m ''card_id'') (columns df) = Some jc"
    and ja: "index_of (mapping_get m ''attendance'') (columns df) = Some ja"
    and jn: "index_of (mapping_get m ''notes'') (columns df) = Some jn"
    and jt: "index_of (mapping_get m ''timestamp'') (columns df) = Some jt"
    and rc: "rec ''card_id'' = Some cid" and ra: "rec ''attendance'' = Some a"
    and rn: "rec ''notes'' = Some n"
    and miss: "\<forall>r\<in>set (rows df). py_str (cell r jc) \<noteq> cid"
  shows "add_record_frame m rec df =
           Inr (df\<lparr>rows := rows df @
                  [map (\<lambda>c. if c = mapping_get m ''timestamp'' then Str (dict_get rec ''timestamp'' [])
                             else if c = mapping_get m ''notes'' then Str n
                             else if c = mapping_get m ''attendance'' then Str a
                             else (case map_of (fill_identity m rec (columns df)
                                                  [''card_id'', ''student_id'', ''name'', ''phone'']
                                                  (empty_row (columns df))) c of
                                     None \<Rightarrow> NaN | Some v \<Rightarrow> v))
                       (columns df)]\<rparr>)"
proof -
  let ?row = "fill_identity m rec (columns df) [''card_id'', ''student_id'', ''name'', ''phone'']
                (empty_row (columns df))"
  let ?d = "AList.update (mapping_get m ''timestamp'') (Str (dict_get rec ''timestamp'' []))
              (AList.update (mapping_get m ''notes'') (Str n)
                 (AList.update (mapping_get m ''attendance'') (Str a) ?row))"
  have none: "\<not> list_ex id (astype_str_eq df jc cid)"
    using miss by (auto simp: list_ex_iff astype_str_eq_def)
  have mem: "mapping_get m ''attendance'' \<in> set (columns df)"
    "mapping_get m ''notes'' \<in> set (columns df)" "mapping_get m ''timestamp'' \<in> set (columns df)"
    using ja jn jt index_of_None [of _ "columns df"] by (metis option.distinct(1))+
  have "fst ` set ?row \<subseteq> set (columns df)"
    by (rule fill_identity_keys) (simp add: keys_empty_row)
  with mem have keys: "fst ` set ?d \<subseteq> set (columns df)"
    by (auto simp: dom_update)
  have frame: "add_record_frame m rec df = Inr (concat_row df ?d)"
    unfolding add_record_frame_def Let_def
    by (simp only: jc rc ra rn none option.case if_False)
  have "map_of ?d c =
          (if c = mapping_get m ''timestamp'' then Some (Str (dict_get rec ''timestamp'' []))
           else if c = mapping_get m ''notes'' then Some (Str n)
           else if c = mapping_get m ''attendance'' then Some (Str a)
           else map_of ?row c)" for c
    by (simp add: update_conv')
  then show ?thesis
    unfolding frame concat_row_same_columns [OF keys]
    by (simp cong: map_cong)
qed

lemma wf_df_row_length: "wf_df df \<Longrightarrow> i < length (rows df) \<Longrightarrow> length (rows df ! i) = length (columns df)"
  by (simp add: wf_df_def list_all_length)

lemma upd3:
  "ja < length r \<Longrightarrow> jn < length r \<Longrightarrow> ja \<noteq> jn \<Longrightarrow>
   length (r[jt := x, ja := y, jn := z]) = length r
   \<and> r[jt := x, ja := y, jn := z] ! ja = y \<and> r[jt := x, ja := y, jn := z] ! jn = z
   \<and> (\<forall>j. j \<noteq> ja \<and> j \<noteq> jn \<and> j \<noteq> jt \<longrightarrow> r[jt := x, ja := y, jn := z] ! j = r ! j)"
  by simp

lemma mapped_distinct:
  assumes inj: "distinct (map (mapping_get m)
                [''card_id'', ''student_id'', ''name'', ''phone'', ''attendance'', ''notes'', ''timestamp''])"
    and jc: "index_of (mapping_get m ''card_id'') cols = Some jc"
    and ja: "index_of (mapping_get m ''attendance'') cols = Some ja"
    and jn: "index_of (mapping_get m ''notes'') cols = Some jn"
    and jt: "index_of (mapping_get m ''timestamp'') cols = Some jt"
  shows "ja \<noteq> jn" "ja \<noteq> jt" "jn \<noteq> jt" "jc \<noteq> ja" "jc \<noteq> jn" "jc \<noteq> jt"
proof -
  have d: "mapping_get m ''attendance'' \<noteq> mapping_get m ''notes''"
    "mapping_get m ''attendance'' \<noteq> mapping_get m ''timestamp''"
    "mapping_get m ''notes'' \<noteq> mapping_get m ''timestamp''"
    "mapping_get m ''card_id'' \<noteq> mapping_get m ''attendance''"
    "mapping_get m ''card_id'' \<noteq> mapping_get m ''notes''"
    "mapping_get m ''card_id'' \<noteq> mapping_get m ''timestamp''"
    using inj by simp_all
  show "ja \<noteq> jn" using d(1) index_of_same [OF ja] jn by blast
  show "ja \<noteq> jt" using d(2) index_of_same [OF ja] jt by blast
  show "jn \<noteq> jt" using d(3) index_of_same [OF jn] jt by blast
  show "jc \<noteq> ja" using d(4) index_of_same [OF jc] ja by blast
  show "jc \<noteq> jn" using d(5) index_of_same [OF jc] jn by blast
  show "jc \<noteq> jt" using d(6) index_of_same [OF jc] jt by blast
qed

lemma add_record_frame_update_props:
  assumes wf: "wf_df T"
    and inj: "distinct (map (mapping_get m)
                [''card_id'', ''student_id'', ''name'', ''phone'', ''attendance'', ''notes'', ''timestamp''])"
    and jc: "index_of (mapping_get m ''card_id'') (columns T) = Some jc"
    and ja: "index_of (mapping_get m ''attendance'') (columns T) = Some ja"
    and jn: "index_of (mapping_get m ''notes'') (columns T) = Some jn"
    and jt: "index_of (mapping_get m ''timestamp'') (columns T) = Some jt"
    and rc: "rec ''card_id'' = Some cid" and ra: "rec ''attendance'' = Some a"
    and rn: "rec ''notes'' = Some n"
    and hit: "\<exists>r\<in>set (rows T). py_str (cell r jc) = cid"
  shows "\<exists>T'. add_record_frame m rec T = Inr T' \<and> columns T' = columns T
           \<and> length (rows T') = length (rows T)
           \<and> (\<forall>i<length (rows T).
                 (py_str (cell (rows T ! i) jc) \<noteq> cid \<longrightarrow> rows T' ! i = rows T ! i)
               \<and> (py_str (cell (rows T ! i) jc) = cid \<longrightarrow>
                    length (rows T' ! i) = length (rows T ! i)
                    \<and> rows T' ! i ! ja = Str a \<and> rows T' ! i ! jn = Str n
                    \<and> (\<forall>j. j \<noteq> ja \<and> j \<noteq> jn \<and> j \<noteq> jt \<longrightarrow>
                          rows T' ! i ! j = rows T ! i ! j)))"
proof -
  let ?P = "\<lambda>r. py_str (cell r jc) = cid"
  define tsv where "tsv = (if truthy rec ''timestamp'' then Str (dict_get rec ''timestamp'' [])
                else cell (hd (filter ?P (rows T))) jt)"
  define g where "g = (\<lambda>r. if ?P r then r[jt := tsv, ja := Str a, jn := Str n] else r)"
  define T' where "T' = T\<lparr>rows := map g (rows T)\<rparr>"
  have fr: "add_record_frame m rec T = Inr T'"
    unfolding T'_def g_def tsv_def
    by (rule add_record_frame_update [OF jc ja jn jt rc ra rn hit])
  have neq: "ja \<noteq> jn" by (rule mapped_distinct(1) [OF inj jc ja jn jt])
  have la: "ja < length (columns T)" and ln: "jn < length (columns T)"
    using index_of_Some [OF ja] index_of_Some [OF jn] by simp_all
  have rows: "(\<not> ?P (rows T ! i) \<longrightarrow> rows T' ! i = rows T ! i)
               \<and> (?P (rows T ! i) \<longrightarrow>
                    length (rows T' ! i) = length (rows T ! i)
                    \<and> rows T' ! i ! ja = Str a \<and> rows T' ! i ! jn = Str n
                    \<and> (\<forall>j. j \<noteq> ja \<and> j \<noteq> jn \<and> j \<noteq> jt \<longrightarrow> rows T' ! i ! j = rows T ! i ! j))"
    if i: "i < length (rows T)" for i
  proof -
    have len: "length (rows T ! i) = length (columns T)" by (rule wf_df_row_length [OF wf i])
    have eq: "rows T' ! i = g (rows T ! i)" using i by (simp add: T'_def)
    show ?thesis
    proof (cases "?P (rows T ! i)")
      case True
      then have "rows T' ! i = (rows T ! i)[jt := tsv, ja := Str a, jn := Str n]"
        using eq by (simp add: g_def)
      with True upd3 [of ja "rows T ! i" jn jt tsv "Str a" "Str n"] la ln len neq
      show ?thesis by simp
    next
      case False
      then show ?thesis using eq by (simp add: g_def)
    qed
  qed
  have "columns T' = columns T" "length (rows T') = length (rows T)"
    by (simp_all add: T'_def)
  with fr rows show ?thesis by blast
qed

lemma add_record_frame_append_props:
  assumes inj: "distinct (map (mapping_get m)
                [''card_id'', ''student_id'', ''name'', ''phone'', ''attendance'', ''notes'', ''timestamp''])"
    and jc: "index_of (mapping_get m ''card_id'') (columns T) = Some jc"
    and ja: "index_of (mapping_get m ''attendance'') (columns T) = Some ja"
    and jn: "index_of (mapping_get m ''notes'') (columns T) = Some jn"
    and jt: "index_of (mapping_get m ''timestamp'') (columns T) = Some jt"
    and rc: "rec ''card_id'' = Some cid" and ra: "rec ''attendance'' = Some a"
    and rn: "rec ''notes'' = Some n"
    and miss: "\<forall>r\<in>set (rows T). py_str (cell r jc) \<noteq> cid"
  shows "\<exists>new. add_record_frame m rec T = Inr (T\<lparr>rows := rows T @ [new]\<rparr>)
           \<and> length new = length (columns T)
           \<and> new ! jc = Str cid \<and> new ! ja = Str a \<and> new ! jn = Str n
           \<and> new ! jt = Str (dict_get rec ''timestamp'' [])
           \<and> (\<forall>j<length (columns T).
                 columns T ! j \<notin> mapping_get m `
                   {''card_id'', ''student_id'', ''name'', ''phone'',
                    ''attendance'', ''notes'', ''timestamp''}
                 \<longrightarrow> new ! j = Str [])"
proof -
  define row where "row = fill_identity m rec (columns T)
                  [''card_id'', ''student_id'', ''name'', ''phone''] (empty_row (columns T))"
  define f where "f = (\<lambda>c. if c = mapping_get m ''timestamp'' then Str (dict_get rec ''timestamp'' [])
                   else if c = mapping_get m ''notes'' then Str n
                   else if c = mapping_get m ''attendance'' then Str a
                   else (case map_of row c of None \<Rightarrow> NaN | Some v \<Rightarrow> v))"
  define new where "new = map f (columns T)"
  have fr: "add_record_frame m rec T = Inr (T\<lparr>rows := rows T @ [new]\<rparr>)"
    unfolding new_def f_def row_def
    by (rule add_record_frame_append [OF jc ja jn jt rc ra rn miss])
  note ic = index_of_Some [OF jc] and ia = index_of_Some [OF ja]
    and inn = index_of_Some [OF jn] and it = index_of_Some [OF jt]
  have d: "mapping_get m ''attendance'' \<noteq> mapping_get m ''notes''"
    "mapping_get m ''attendance'' \<noteq> mapping_get m ''timestamp''"
    "mapping_get m ''notes'' \<noteq> mapping_get m ''timestamp''"
    "mapping_get m ''card_id'' \<noteq> mapping_get m ''attendance''"
    "mapping_get m ''card_id'' \<noteq> mapping_get m ''notes''"
    "mapping_get m ''card_id'' \<noteq> mapping_get m ''timestamp''"
    using inj by simp_all
  have card: "map_of row (mapping_get m ''card_id'') = Some (Str cid)"
  proof -
    have "mapping_get m ''card_id'' \<in> set (columns T)" using ic by (metis nth_mem)
    moreover have "mapping_get m ''card_id'' \<notin> mapping_get m ` set [''student_id'', ''name'', ''phone'']"
      using inj by auto
    ultimately have "map_of row (mapping_get m ''card_id'') = Some (Str (dict_get rec ''card_id'' []))"
      unfolding row_def by (rule fill_identity_hit)
    then show ?thesis using rc by (simp add: dict_get_def)
  qed
  have nth: "new ! j = f (columns T ! j)" if "j < length (columns T)" for j
    using that by (simp add: new_def)
  have n_t: "new ! jt = Str (dict_get rec ''timestamp'' [])"
    using nth [of jt] it by (simp add: f_def)
  have n_n: "new ! jn = Str n"
    using nth [of jn] inn d by (simp add: f_def)
  have n_a: "new ! ja = Str a"
    using nth [of ja] ia d by (simp add: f_def)
  have n_c: "new ! jc = Str cid"
    using nth [of jc] ic d card by (simp add: f_def)
  have other: "new ! j = Str []"
    if j: "j < length (columns T)"
      and nm: "columns T ! j \<notin> mapping_get m ` {''card_id'', ''student_id'', ''name'', ''phone'',
                            ''attendance'', ''notes'', ''timestamp''}" for j
  proof -
    from nm have "columns T ! j \<notin> mapping_get m ` set [''card_id'', ''student_id'', ''name'', ''phone'']"
      by auto
    then have "map_of row (columns T ! j) = map_of (empty_row (columns T)) (columns T ! j)"
      unfolding row_def by (rule fill_identity_other)
    also have "\<dots> = Some (Str [])" using j by (simp add: map_of_empty_row)
    finally have "map_of row (columns T ! j) = Some (Str [])" .
    moreover have "columns T ! j \<noteq> mapping_get m ''timestamp''"
      "columns T ! j \<noteq> mapping_get m ''notes''" "columns T ! j \<noteq> mapping_get m ''attendance''"
      using nm by auto
    ultimately show ?thesis using nth [OF j] by (simp add: f_def)
  qed
  have "length new = length (columns T)" by (simp add: new_def)
  with fr n_t n_n n_a n_c other show ?thesis by blast
qed

text \<open>
  Claim C1, as the code has it. Let the table read from disk be aligned with its headers and
  hold the columns mapped for card_id, attendance, notes and timestamp, let the seven mapped
  headers be pairwise distinct, and let the record carry card_id, attendance and notes. Then
  \<open>add_record\<close> writes one table \<open>T'\<close> with the headers of \<open>T\<close>. If no row has its card_id
  cell equal, as a string, to the record's card_id, \<open>T'\<close> is \<open>T\<close> with one row appended: the
  record's card_id, attendance, notes and timestamp (empty when absent) in their columns and
  the empty string in every column that no logical field is mapped to. If some row matches,
  the row count is unchanged, every row that does not match is unchanged, and every row that
  matches has its attendance and notes cells overwritten and keeps all its cells outside the
  attendance, notes and timestamp columns.
\<close>

theorem add_record_upsert:
  assumes wf: "wf_df T"
    and rd: "read_data pd (session_path sm) fs = Inr T"
    and inj: "distinct (map (mapping_get (sm_mapping sm))
                [''card_id'', ''student_id'', ''name'', ''phone'', ''attendance'', ''notes'', ''timestamp''])"
    and jc: "index_of (mapping_get (sm_mapping sm) ''card_id'') (columns T) = Some jc"
    and ja: "index_of (mapping_get (sm_mapping sm) ''attendance'') (columns T) = Some ja"
    and jn: "index_of (mapping_get (sm_mapping sm) ''notes'') (columns T) = Some jn"
    and jt: "index_of (mapping_get (sm_mapping sm) ''timestamp'') (columns T) = Some jt"
    and rc: "rec ''card_id'' = Some cid" and ra: "rec ''attendance'' = Some a"
    and rn: "rec ''notes'' = Some n"
  shows "\<exists>T'. add_record pd sm rec fs = write_data pd T' (session_path sm) fs
           \<and> columns T' = columns T
           \<and> ((\<forall>r\<in>set (rows T). py_str (cell r jc) \<noteq> cid) \<longrightarrow>
                (\<exists>new. rows T' = rows T @ [new] \<and> length new = length (columns T)
                   \<and> new ! jc = Str cid \<and> new ! ja = Str a \<and> new ! jn = Str n
                   \<and> new ! jt = Str (dict_get rec ''timestamp'' [])
                   \<and> (\<forall>j<length (columns T).
                         columns T ! j \<notin> mapping_get (sm_mapping sm) `
                           {''card_id'', ''student_id'', ''name'', ''phone'',
                            ''attendance'', ''notes'', ''timestamp''}
                         \<longrightarrow> new ! j = Str [])))
           \<and> ((\<exists>r\<in>set (rows T). py_str (cell r jc) = cid) \<longrightarrow>
                length (rows T') = length (rows T)
                \<and> (\<forall>i<length (rows T).
                      (py_str (cell (rows T ! i) jc) \<noteq> cid \<longrightarrow> rows T' ! i = rows T ! i)
                    \<and> (py_str (cell (rows T ! i) jc) = cid \<longrightarrow>
                         length (rows T' ! i) = length (rows T ! i)
                         \<and> rows T' ! i ! ja = Str a \<and> rows T' ! i ! jn = Str n
                         \<and> (\<forall>j. j \<noteq> ja \<and> j \<noteq> jn \<and> j \<noteq> jt \<longrightarrow>
                               rows T' ! i ! j = rows T ! i ! j))))"
proof (cases "\<exists>r\<in>set (rows T). py_str (cell r jc) = cid")
  case True
  from add_record_frame_update_props [OF wf inj jc ja jn jt rc ra rn True]
  obtain T' where fr: "add_record_frame (sm_mapping sm) rec T = Inr T'"
    and cols: "columns T' = columns T"
    and len: "length (rows T') = length (rows T)"
    and rows: "\<forall>i<length (rows T).
                 (py_str (cell (rows T ! i) jc) \<noteq> cid \<longrightarrow> rows T' ! i = rows T ! i)
               \<and> (py_str (cell (rows T ! i) jc) = cid \<longrightarrow>
                    length (rows T' ! i) = length (rows T ! i)
                    \<and> rows T' ! i ! ja = Str a \<and> rows T' ! i ! jn = Str n
                    \<and> (\<forall>j. j \<noteq> ja \<and> j \<noteq> jn \<and> j \<noteq> jt \<longrightarrow>
                          rows T' ! i ! j = rows T ! i ! j))"
    by blast
  have w: "add_record pd sm rec fs = write_data pd T' (session_path sm) fs"
    by (simp add: add_record_def rd fr)
  have no: "\<not> (\<forall>r\<in>set (rows T). py_str (cell r jc) \<noteq> cid)" using True by blast
  show ?thesis
    apply (rule exI [of _ T'])
    apply (intro conjI)
       apply (rule w)
      apply (rule cols)
     apply (simp only: no, simp)
    apply (intro impI conjI)
     apply (rule len)
    apply (rule rows)
    done
next
  case False
  then have miss: "\<forall>r\<in>set (rows T). py_str (cell r jc) \<noteq> cid" by blast
  from add_record_frame_append_props [OF inj jc ja jn jt rc ra rn miss]
  obtain new where fr: "add_record_frame (sm_mapping sm) rec T = Inr (T\<lparr>rows := rows T @ [new]\<rparr>)"
    and props: "length new = length (columns T)
           \<and> new ! jc = Str cid \<and> new ! ja = Str a \<and> new ! jn = Str n
           \<and> new ! jt = Str (dict_get rec ''timestamp'' [])
           \<and> (\<forall>j<length (columns T).
                 columns T ! j \<notin> mapping_get (sm_mapping sm) `
                   {''card_id'', ''student_id'', ''name'', ''phone'',
                    ''attendance'', ''notes'', ''timestamp''}
                 \<longrightarrow> new ! j = Str [])"
    by blast
  let ?T' = "T\<lparr>rows := rows T @ [new]\<rparr>"
  have w: "add_record pd sm rec fs = write_data pd ?T' (session_path sm) fs"
    by (simp add: add_record_def rd fr)
  have ex: "\<exists>new'. rows ?T' = rows T @ [new'] \<and> (length new' = length (columns T)
           \<and> new' ! jc = Str cid \<and> new' ! ja = Str a \<and> new' ! jn = Str n
           \<and> new' ! jt = Str (dict_get rec ''timestamp'' [])
           \<and> (\<forall>j<length (columns T).
                 columns T ! j \<notin> mapping_get (sm_mapping sm) `
                   {''card_id'', ''student_id'', ''name'', ''phone'',
                    ''attendance'', ''notes'', ''timestamp''}
                 \<longrightarrow> new' ! j = Str []))"
    apply (rule exI [of _ new])
    apply (rule conjI)
     apply simp
    apply (rule props)
    done
  show ?thesis
    apply (rule exI [of _ ?T'])
    apply (intro conjI)
       apply (rule w)
      apply simp
     apply (rule impI, rule ex)
    apply (simp only: False, simp)
    done
qed

lemma example_read:
  "read_data (dict_store locked) ''s.csv'' [''s.csv'' \<mapsto> T] = Inr T"
  by (simp add: read_data_def dict_store_def dict_read_def endswith_def py_lower_def lower_char_def)

lemma example_write:
  "write_data (dict_store []) T' ''s.csv'' fs = (None, fs(''s.csv'' \<mapsto> T'))"
  by (simp add: write_data_def dict_store_def dict_write_def endswith_def py_lower_def lower_char_def)

lemma example_mapping:
  "mapping_get (sm_mapping example_sm) ''card_id'' = ''RFID''"
  "mapping_get (sm_mapping example_sm) ''attendance'' = ''Present''"
  "mapping_get (sm_mapping example_sm) ''notes'' = ''notes''"
  "mapping_get (sm_mapping example_sm) ''timestamp'' = ''timestamp''"
  "mapping_get (sm_mapping example_sm) ''student_id'' = ''student_id''"
  "mapping_get (sm_mapping example_sm) ''name'' = ''name''"
  "mapping_get (sm_mapping example_sm) ''phone'' = ''phone''"
  by (simp_all add: example_sm_def mapping_get_def dict_get_def)

theorem add_record_upsert_witness:
  "(\<exists>T'. snd (add_record (dict_store []) example_sm
               [''card_id'' \<mapsto> ''00004521'', ''attendance'' \<mapsto> ''attend'', ''notes'' \<mapsto> ''ok'',
                ''timestamp'' \<mapsto> ''[10:00:00]'']
               [''s.csv'' \<mapsto> example_table]) ''s.csv'' = Some T'
          \<and> columns T' = columns example_table \<and> length (rows T') = 1
          \<and> rows T' ! 0 ! 2 = Str ''attend'' \<and> rows T' ! 0 ! 3 = Str ''ok''
          \<and> rows T' ! 0 ! 0 = Str ''00004521'' \<and> rows T' ! 0 ! 1 = Str ''A'')
   \<and> (\<exists>T'. snd (add_record (dict_store []) example_sm
               [''card_id'' \<mapsto> ''00000007'', ''attendance'' \<mapsto> ''attend'', ''notes'' \<mapsto> ''new'']
               [''s.csv'' \<mapsto> example_table]) ''s.csv'' = Some T'
          \<and> columns T' = columns example_table
          \<and> length (rows T') = 2 \<and> rows T' ! 0 = rows example_table ! 0
          \<and> rows T' ! 1 ! 0 = Str ''00000007'' \<and> rows T' ! 1 ! 1 = Str []
          \<and> rows T' ! 1 ! 2 = Str ''attend'' \<and> rows T' ! 1 ! 3 = Str ''new''
          \<and> rows T' ! 1 ! 4 = Str [])"
proof -
  let ?fs = "[''s.csv'' \<mapsto> example_table]"
  have wf: "wf_df example_table" by (simp add: wf_df_def example_table_def)
  have rd: "read_data (dict_store []) (session_path example_sm) ?fs = Inr example_table"
    by (simp add: example_sm_def example_read)
  have inj: "distinct (map (mapping_get (sm_mapping example_sm))
                [''card_id'', ''student_id'', ''name'', ''phone'', ''attendance'', ''notes'', ''timestamp''])"
    by (simp add: example_mapping)
  have jc: "index_of (mapping_get (sm_mapping example_sm) ''card_id'') (columns example_table) = Some 0"
    and ja: "index_of (mapping_get (sm_mapping example_sm) ''attendance'') (columns example_table) = Some 2"
    and jn: "index_of (mapping_get (sm_mapping example_sm) ''notes'') (columns example_table) = Some 3"
    and jt: "index_of (mapping_get (sm_mapping example_sm) ''timestamp'') (columns example_table) = Some 4"
    by (simp_all add: example_mapping example_table_def)
  have hit: "\<exists>r\<in>set (rows example_table). py_str (cell r 0) = ''00004521''"
    by (simp add: example_table_def cell_def)
  have miss: "\<forall>r\<in>set (rows example_table). py_str (cell r 0) \<noteq> ''00000007''"
    by (simp add: example_table_def cell_def)
  have sp: "session_path example_sm = ''s.csv''" by (simp add: example_sm_def)
  have r0: "rows example_table ! 0 ! 0 = Str ''00004521''" "rows example_table ! 0 ! 1 = Str ''A''"
    "length (rows example_table) = 1" "py_str (cell (rows example_table ! 0) 0) = ''00004521''"
    "length (columns example_table) = 5"
    by (simp_all add: example_table_def cell_def)
  have c: "columns example_table ! 1 \<notin> mapping_get (sm_mapping example_sm) `
            {''card_id'', ''student_id'', ''name'', ''phone'', ''attendance'', ''notes'', ''timestamp''}"
    by (simp add: example_table_def example_mapping)
  from add_record_upsert [OF wf rd inj jc ja jn jt, of
      "[''card_id'' \<mapsto> ''00004521'', ''attendance'' \<mapsto> ''attend'', ''notes'' \<mapsto> ''ok'',
        ''timestamp'' \<mapsto> ''[10:00:00]'']" "''00004521''" "''attend''" "''ok''"]
  obtain T1 where w1: "add_record (dict_store []) example_sm
               [''card_id'' \<mapsto> ''00004521'', ''attendance'' \<mapsto> ''attend'', ''notes'' \<mapsto> ''ok'',
                ''timestamp'' \<mapsto> ''[10:00:00]''] ?fs = write_data (dict_store []) T1 ''s.csv'' ?fs"
    and c1: "columns T1 = columns example_table"
    and u1: "(\<exists>r\<in>set (rows example_table). py_str (cell r 0) = ''00004521'') \<longrightarrow>
                length (rows T1) = length (rows example_table)
                \<and> (\<forall>i<length (rows example_table).
                      (py_str (cell (rows example_table ! i) 0) \<noteq> ''00004521'' \<longrightarrow> rows T1 ! i = rows example_table ! i)
                    \<and> (py_str (cell (rows example_table ! i) 0) = ''00004521'' \<longrightarrow>
                         length (rows T1 ! i) = length (rows example_table ! i)
                         \<and> rows T1 ! i ! 2 = Str ''attend'' \<and> rows T1 ! i ! 3 = Str ''ok''
                         \<and> (\<forall>j. j \<noteq> 2 \<and> j \<noteq> 3 \<and> j \<noteq> 4 \<longrightarrow>
                               rows T1 ! i ! j = rows example_table ! i ! j)))"
    unfolding sp by auto
  from u1 hit r0 have p1: "length (rows T1) = 1" "rows T1 ! 0 ! 2 = Str ''attend''"
    "rows T1 ! 0 ! 3 = Str ''ok''" "rows T1 ! 0 ! 0 = Str ''00004521''" "rows T1 ! 0 ! 1 = Str ''A''"
    by auto
  have first: "\<exists>T'. snd (add_record (dict_store []) example_sm
               [''card_id'' \<mapsto> ''00004521'', ''attendance'' \<mapsto> ''attend'', ''notes'' \<mapsto> ''ok'',
                ''timestamp'' \<mapsto> ''[10:00:00]''] ?fs) ''s.csv'' = Some T'
          \<and> columns T' = columns example_table \<and> length (rows T') = 1
          \<and> rows T' ! 0 ! 2 = Str ''attend'' \<and> rows T' ! 0 ! 3 = Str ''ok''
          \<and> rows T' ! 0 ! 0 = Str ''00004521'' \<and> rows T' ! 0 ! 1 = Str ''A''"
    using w1 c1 p1 by (simp add: example_write)
  from add_record_upsert [OF wf rd inj jc ja jn jt, of
      "[''card_id'' \<mapsto> ''00000007'', ''attendance'' \<mapsto> ''attend'', ''notes'' \<mapsto> ''new'']"
      "''00000007''" "''attend''" "''new''"]
  obtain T2 where w2: "add_record (dict_store []) example_sm
               [''card_id'' \<mapsto> ''00000007'', ''attendance'' \<mapsto> ''attend'', ''notes'' \<mapsto> ''new''] ?fs
               = write_data (dict_store []) T2 ''s.csv'' ?fs"
    and c2: "columns T2 = columns example_table"
    and u2: "(\<forall>r\<in>set (rows example_table). py_str (cell r 0) \<noteq> ''00000007'') \<longrightarrow>
                (\<exists>new. rows T2 = rows example_table @ [new] \<and> length new = length (columns example_table)
                   \<and> new ! 0 = Str ''00000007'' \<and> new ! 2 = Str ''attend'' \<and> new ! 3 = Str ''new''
                   \<and> new ! 4 = Str (dict_get [''card_id'' \<mapsto> ''00000007'', ''attendance'' \<mapsto> ''attend'', ''notes'' \<mapsto> ''new''] ''timestamp'' [])
                   \<and> (\<forall>j<length (columns example_table).
                         columns example_table ! j \<notin> mapping_get (sm_mapping example_sm) `
                           {''card_id'', ''student_id'', ''name'', ''phone'',
                            ''attendance'', ''notes'', ''timestamp''}
                         \<longrightarrow> new ! j = Str []))"
    unfolding sp by auto
  from u2 miss obtain new where n: "rows T2 = rows example_table @ [new]"
    "new ! 0 = Str ''00000007''" "new ! 2 = Str ''attend''" "new ! 3 = Str ''new''" "new ! 4 = Str []"
    and o: "\<forall>j<5. columns example_table ! j \<notin> mapping_get (sm_mapping example_sm) `
                           {''card_id'', ''student_id'', ''name'', ''phone'',
                            ''attendance'', ''notes'', ''timestamp''}
                         \<longrightarrow> new ! j = Str []"
    by (auto simp: r0 dict_get_def)
  from o c have n1: "new ! 1 = Str []" by simp
  have second: "\<exists>T'. snd (add_record (dict_store []) example_sm
               [''card_id'' \<mapsto> ''00000007'', ''attendance'' \<mapsto> ''attend'', ''notes'' \<mapsto> ''new'']
               ?fs) ''s.csv'' = Some T'
          \<and> columns T' = columns example_table
          \<and> length (rows T') = 2 \<and> rows T' ! 0 = rows example_table ! 0
          \<and> rows T' ! 1 ! 0 = Str ''00000007'' \<and> rows T' ! 1 ! 1 = Str []
          \<and> rows T' ! 1 ! 2 = Str ''attend'' \<and> rows T' ! 1 ! 3 = Str ''new''
          \<and> rows T' ! 1 ! 4 = Str []"
    using w2 c2 n n1 r0(3) by (simp add: example_write nth_append)
  from first second show ?thesis by (rule conjI)
qed

lemma duplicate_frame:
  "add_record_frame (sm_mapping example_sm)
     [''card_id'' \<mapsto> ''00004521'', ''attendance'' \<mapsto> ''attend'', ''notes'' \<mapsto> ''ok''] duplicate_table
   = Inr \<lparr>columns = [''RFID'', ''Group'', ''Present'', ''notes'', ''timestamp''],
          rows = [[Str ''00004521'', Str ''A'', Str ''attend'', Str ''ok'', Str ''T1''],
                  [Str ''00004521'', Str ''B'', Str ''attend'', Str ''ok'', Str ''T1'']]\<rparr>"
  by (simp add: add_record_frame_def example_mapping duplicate_table_def astype_str_eq_def
      cell_def loc_values_def loc_assign_def truthy_def dict_get_def)

text \<open>
  When two rows of the table carry the record's card_id, the second one does not stay as it
  was: attendance, notes and timestamp are overwritten in both.
\<close>

theorem add_record_duplicate_rows_counterexample:
  "snd (add_record (dict_store []) example_sm
          [''card_id'' \<mapsto> ''00004521'', ''attendance'' \<mapsto> ''attend'', ''notes'' \<mapsto> ''ok'',
           ''timestamp'' \<mapsto> ''[10:00:00]'']
          [''s.csv'' \<mapsto> duplicate_table]) ''s.csv''
   = Some \<lparr>columns = [''RFID'', ''Group'', ''Present'', ''notes'', ''timestamp''],
           rows = [[Str ''00004521'', Str ''A'', Str ''attend'', Str ''ok'', Str ''[10:00:00]''],
                   [Str ''00004521'', Str ''B'', Str ''attend'', Str ''ok'', Str ''[10:00:00]'']]\<rparr>
   \<and> rows duplicate_table ! 1 = [Str ''00004521'', Str ''B'', NaN, Str ''late'', Str ''T2'']"
  by (simp add: add_record_def example_read example_write example_sm_def
      add_record_frame_def mapping_get_def duplicate_table_def astype_str_eq_def
      cell_def loc_values_def loc_assign_def truthy_def dict_get_def)







section \<open>Properties of scan resolution\<close>













lemma entry_irrelevant:
  "tree_exists (w\<lparr>scan_entry := x\<rparr>) iid = tree_exists w iid"
  "scan_tree_get (w\<lparr>scan_entry := x\<rparr>) iid col = scan_tree_get w iid col"
  by (simp_all add: tree_exists_def scan_tree_get_def tree_columns_def restriction_on_def)

lemma lookup_ignores_entry:
  "scan_lookup_matches (w\<lparr>scan_entry := x\<rparr>) c = scan_lookup_matches w c"
  by (simp add: scan_lookup_matches_def entry_irrelevant Let_def)



lemma lookup_distinct: "distinct (scan_lookup_matches w c)"
  by (auto simp: scan_lookup_matches_def Let_def)

lemma lookup_set:
  "scan_normalize_card c \<noteq> [] \<Longrightarrow>
   set (scan_lookup_matches w c) =
     {iid \<in> set (all_iids w). tree_exists w iid
        \<and> (scan_normalize_card (Str iid) = scan_normalize_card c
            \<or> scan_normalize_card (Str (scan_tree_get w iid ''card_id'')) = scan_normalize_card c)}"
  by (auto simp: scan_lookup_matches_def Let_def)


text \<open>
  Claim C4. In a window that is not read-only, let the normalised scan token be non-empty
  and match two different loaded records, each by the normalised form of its iid or of its
  stored card_id. Then the scan shows status "duplicate" with both records among the
  candidates, no cell of the tree changes, no record is added, and the file system is the one
  before the scan: nothing is written.
\<close>

theorem scan_duplicate_no_mutation:
  assumes ro: "\<not> read_only w"
    and tok: "scan_normalize_card (Str (scan_entry w)) \<noteq> []"
    and i: "i \<in> set (all_iids w)" "tree_exists w i"
      "scan_normalize_card (Str i) = scan_normalize_card (Str (scan_entry w))
       \<or> scan_normalize_card (Str (scan_tree_get w i ''card_id'')) = scan_normalize_card (Str (scan_entry w))"
    and j: "j \<in> set (all_iids w)" "tree_exists w j"
      "scan_normalize_card (Str j) = scan_normalize_card (Str (scan_entry w))
       \<or> scan_normalize_card (Str (scan_tree_get w j ''card_id'')) = scan_normalize_card (Str (scan_entry w))"
    and ij: "i \<noteq> j"
  shows "snd (scan_on_scan pd now w fs) = fs
       \<and> tree (fst (scan_on_scan pd now w fs)) = tree w
       \<and> all_iids (fst (scan_on_scan pd now w fs)) = all_iids w
       \<and> (\<exists>c. scan_focus_ctx (fst (scan_on_scan pd now w fs)) = Some c
              \<and> ctx_status c = Some ''duplicate'' \<and> ctx_iid c = None
              \<and> i \<in> set (ctx_focus_iids c) \<and> j \<in> set (ctx_focus_iids c))"
proof -
  define n where "n = scan_normalize_card (Str (scan_entry w))"
  define w1 where "w1 = w\<lparr>scan_entry := []\<rparr>"
  define ms where "ms = scan_lookup_matches w (Str (scan_entry w))"
  have same: "scan_lookup_matches w1 (Str n) = ms"
    unfolding w1_def lookup_ignores_entry ms_def
    by (simp add: scan_lookup_matches_def n_def normalize_fixed)
  have mem: "i \<in> set ms" "j \<in> set ms"
    using i j tok unfolding ms_def by (simp_all add: lookup_set)
  have "distinct ms" unfolding ms_def by (rule lookup_distinct)
  then have "card (set ms) = length ms" by (rule distinct_card)
  moreover have "card {i, j} \<le> card (set ms)"
    using mem by (intro card_mono) auto
  ultimately have len: "1 < length ms" using ij by simp
  then have nemp: "ms \<noteq> []" by auto
  have r: "scan_on_scan pd now w fs =
             (scan_focus_show
                (empty_context
                   \<lparr>ctx_card_id := n, ctx_card_display := n,
                    ctx_name := ''Multiple Records Found'', ctx_student_id := [],
                    ctx_status := Some ''duplicate'', ctx_focus_iids := ms,
                    ctx_skip_filter := True\<rparr>) w1, fs)"
    using ro tok same len nemp
    unfolding scan_on_scan_def Let_def n_def [symmetric] w1_def [symmetric]
    by simp
  show ?thesis
    unfolding r using mem
    by (simp add: scan_focus_show_def Let_def w1_def empty_context_def)
qed


theorem scan_duplicate_no_mutation_witness:
  "snd (scan_on_scan (dict_store []) example_now duplicate_window [''s.csv'' \<mapsto> example_table])
     = [''s.csv'' \<mapsto> example_table]
   \<and> tree (fst (scan_on_scan (dict_store []) example_now duplicate_window
                  [''s.csv'' \<mapsto> example_table])) = tree duplicate_window
   \<and> (\<exists>c. scan_focus_ctx (fst (scan_on_scan (dict_store []) example_now duplicate_window
                                 [''s.csv'' \<mapsto> example_table])) = Some c
          \<and> ctx_status c = Some ''duplicate''
          \<and> ''00004521'' \<in> set (ctx_focus_iids c) \<and> ''legacy'' \<in> set (ctx_focus_iids c))"
proof -
  have ro: "\<not> read_only duplicate_window"
    by (simp add: duplicate_window_def example_window_def)
  have n: "scan_normalize_card (Str (scan_entry duplicate_window)) = ''00004521''"
    by code_simp
  have tok: "scan_normalize_card (Str (scan_entry duplicate_window)) \<noteq> []"
    unfolding n by simp
  have i: "''00004521'' \<in> set (all_iids duplicate_window)" "tree_exists duplicate_window ''00004521''"
    and j: "''legacy'' \<in> set (all_iids duplicate_window)" "tree_exists duplicate_window ''legacy''"
    by (simp_all add: duplicate_window_def example_window_def tree_exists_def)
  have mi: "scan_normalize_card (Str ''00004521'') = scan_normalize_card (Str (scan_entry duplicate_window))
       \<or> scan_normalize_card (Str (scan_tree_get duplicate_window ''00004521'' ''card_id''))
           = scan_normalize_card (Str (scan_entry duplicate_window))"
    by code_simp
  have mj: "scan_normalize_card (Str ''legacy'') = scan_normalize_card (Str (scan_entry duplicate_window))
       \<or> scan_normalize_card (Str (scan_tree_get duplicate_window ''legacy'' ''card_id''))
           = scan_normalize_card (Str (scan_entry duplicate_window))"
    by code_simp
  have ij: "''00004521'' \<noteq> ''legacy''" by simp
  from scan_duplicate_no_mutation [OF ro tok i mi j mj ij, of "dict_store []" example_now
      "[''s.csv'' \<mapsto> example_table]"]
  show ?thesis by blast
qed

section \<open>Properties of the audit notes\<close>














section \<open>Properties of the column map validation\<close>

lemma collect_mapping_keys: "map fst (collect_mapping c) = mapping_fields"
  by (simp add: collect_mapping_def Let_def comp_def)

text \<open>
  Claim C8, as the code has it. The collected column map has one entry for each of the nine
  logical fields, and it is accepted as valid if and only if no entry is empty and no two
  entries are the same header.
\<close>

theorem is_mapping_valid_iff:
  "is_mapping_valid mapping_controls =
     ([] \<notin> set (map snd (collect_mapping mapping_controls))
      \<and> distinct (map snd (collect_mapping mapping_controls)))
   \<and> map fst (collect_mapping mapping_controls) = mapping_fields
   \<and> length (collect_mapping mapping_controls) = 9"
proof -
  have len: "length (collect_mapping mapping_controls) = 9"
    by (simp add: collect_mapping_def mapping_fields_def)
  then have ne: "map snd (collect_mapping mapping_controls) \<noteq> []" by auto
  have "(length (map snd (collect_mapping mapping_controls))
          = length (remdups (map snd (collect_mapping mapping_controls))))
        = distinct (map snd (collect_mapping mapping_controls))"
    by (metis distinct_remdups length_remdups_eq remdups_id_iff_distinct)
  then show ?thesis
    using ne len unfolding is_mapping_valid_def Let_def
    by (simp add: collect_mapping_keys)
qed

text \<open>
  A column map whose non-empty entries are pairwise distinct is rejected when one field, here
  the exam, has no header.
\<close>

theorem is_mapping_valid_incomplete_counterexample:
  "distinct (filter (\<lambda>v. v \<noteq> []) (map snd (collect_mapping incomplete_controls)))
   \<and> \<not> is_mapping_valid incomplete_controls"
  by code_simp

section \<open>Properties of the manual addition\<close>



























end
